theory Spec2Isabelle
  imports Main
begin

section \<open>Python values, exceptions\<close>

text \<open>
  The service of \<^verbatim>\<open>src/backend/blockchain.py\<close> is a Python class over the
  \<^verbatim>\<open>web3\<close> client library. Python integers are unbounded: they are \<open>int\<close>.
  Values
  whose Python type is decided at run time (the result of \<^verbatim>\<open>is_configured\<close>,
  an \<^verbatim>\<open>and\<close> chain over two strings and two booleans, and the entries of the
  result dictionaries) are \<open>pyval\<close>s.
\<close>

datatype pyval = PyNone | PyBool bool | PyInt int | PyStr string

text \<open>Python truthiness: \<^verbatim>\<open>None\<close>, \<^verbatim>\<open>False\<close>, zero and the empty string are falsy.\<close>

fun truthy :: "pyval \<Rightarrow> bool" where
  "truthy PyNone = False"
| "truthy (PyBool b) = b"
| "truthy (PyInt i) = (i \<noteq> 0)"
| "truthy (PyStr s) = (s \<noteq> [])"

text \<open>
  A dictionary literal is an association list in the order the source writes its keys;
  \<open>map_of\<close> looks a key up.
\<close>

type_synonym pydict = "(string \<times> pyval) list"

text \<open>
  An exception is its class and its message; \<^verbatim>\<open>str(e)\<close> is the message.
  \<^verbatim>\<open>raise Exception(m)\<close> raises \<open>Exception m\<close>.
\<close>

datatype exn = Exn (exn_class: string) (str: string)

definition Exception :: "string \<Rightarrow> exn" where
  "Exception m = Exn ''Exception'' m"

section \<open>The ledger client\<close>

text \<open>
  The \<^verbatim>\<open>web3\<close> library and the node behind it are not code of this repository.
  The service is modelled over a client \<open>Web3\<close> whose operations are parameters:
  every library operation the source calls is a field (the date formatting of
  \<^verbatim>\<open>datetime\<close> among them), and every operation that can raise
  returns \<open>exn + 'a\<close> (\<open>Inl\<close> the exception). \<open>'w\<close> is the state of the node;
  the two operations that change it (submitting a transaction, waiting for its receipt)
  return the new state.
\<close>

text \<open>The entry points of \<^verbatim>\<open>contract_abi\<close> with their inputs.\<close>

datatype fn_call =
    createContract string int int int
  | signAsBuyer int
  | getContract int
  | getTotalContracts
  | getFarmerContracts string

text \<open>
  The output of \<^verbatim>\<open>getContract\<close>: the eleven components of
  \<^verbatim>\<open>struct ForwardContract.Contract\<close>, read by the source as
  \<^verbatim>\<open>contract_data[0]\<close> .. \<^verbatim>\<open>contract_data[10]\<close>. The ABI decoder fixes
  the shape and the types (\<^verbatim>\<open>uint256\<close> is a Python int, \<^verbatim>\<open>address\<close> and
  \<^verbatim>\<open>string\<close> are strings).
\<close>

record contract_data =
  t_id :: int
  t_farmer :: string
  t_buyer :: string
  t_commodity :: string
  t_quantity :: int
  t_pricePerUnit :: int
  t_deliveryDate :: int
  t_farmerSigned :: bool
  t_buyerSigned :: bool
  t_settled :: bool
  t_createdAt :: int

text \<open>The three event types of \<^verbatim>\<open>contract_abi\<close>; \<open>OtherLog\<close> is a log of no event of the ABI.\<close>

record ContractCreated =
  contractId :: int
  ev_farmer :: string
  ev_commodity :: string
  ev_quantity :: int
  ev_pricePerUnit :: int
  ev_deliveryDate :: int

datatype log =
    ContractCreatedLog ContractCreated
  | ContractSignedLog int string string
  | ContractSettledLog int string string int
  | OtherLog string

record receipt =
  blockNumber :: int
  gasUsed :: int
  logs :: "log list"

text \<open>A transaction hash, given by what its \<^verbatim>\<open>hex()\<close> method returns.\<close>

datatype HexBytes = HexBytes (hex: string)

record LocalAccount =
  address :: string

record transaction =
  tx_to :: string
  tx_data :: fn_call
  tx_params :: pydict

record SignedTransaction =
  rawTransaction :: string

datatype block_identifier = Latest | Pending | Earliest

record 'w Web3 =
  is_address :: "string \<Rightarrow> bool"
  to_checksum_address :: "string \<Rightarrow> string"
  is_connected :: "'w \<Rightarrow> bool"
  from_key :: "string \<Rightarrow> exn + LocalAccount"
  get_transaction_count :: "string \<Rightarrow> block_identifier option \<Rightarrow> 'w \<Rightarrow> exn + int"
  gas_price :: "'w \<Rightarrow> exn + int"
  contract_functions :: "fn_call \<Rightarrow> exn option"
  build_transaction :: "string \<Rightarrow> fn_call \<Rightarrow> pydict \<Rightarrow> 'w \<Rightarrow> exn + transaction"
  sign_transaction :: "transaction \<Rightarrow> string \<Rightarrow> exn + SignedTransaction"
  send_raw_transaction :: "string \<Rightarrow> 'w \<Rightarrow> (exn + HexBytes) \<times> 'w"
  wait_for_transaction_receipt :: "HexBytes \<Rightarrow> 'w \<Rightarrow> (exn + receipt) \<times> 'w"
  process_receipt :: "receipt \<Rightarrow> exn + ContractCreated list"
  call_getContract :: "string \<Rightarrow> int \<Rightarrow> 'w \<Rightarrow> exn + contract_data"
  call_getTotalContracts :: "string \<Rightarrow> 'w \<Rightarrow> exn + int"
  strftime :: "int \<Rightarrow> string \<Rightarrow> exn + string"

text \<open>
  \<^item> \<open>get_transaction_count a b\<close>: \<^verbatim>\<open>w3.eth.get_transaction_count(a, b)\<close>; the
    second argument is optional in Python, \<open>None\<close> when the caller leaves it out.
  \<^item> \<open>contract_functions f\<close>: the check of the arguments against the ABI that
    \<^verbatim>\<open>contract.functions.<name>(args)\<close> makes; \<open>None\<close> when it passes.
  \<^item> \<open>build_transaction a f p\<close>: \<^verbatim>\<open>.build_transaction(p)\<close> on the entry point
    \<open>f\<close> of the contract at address \<open>a\<close>.
  \<^item> \<open>call_getContract a i\<close>, \<open>call_getTotalContracts a\<close>:
    \<^verbatim>\<open>functions.getContract(i).call()\<close> and \<^verbatim>\<open>functions.getTotalContracts().call()\<close>
    on the contract at address \<open>a\<close>, with the output decoded as the ABI says.
  \<^item> \<open>process_receipt r\<close>: \<^verbatim>\<open>contract.events.ContractCreated().process_receipt(r)\<close>,
    the decoded \<^verbatim>\<open>ContractCreated\<close> events of the receipt, in order.
  \<^item> \<open>strftime t fmt\<close>: \<^verbatim>\<open>datetime.fromtimestamp(t).strftime(fmt)\<close>, which depends
    on the local time zone and raises for a time stamp out of the platform's range.
\<close>

section \<open>Calls on the node, recorded\<close>

text \<open>
  Every call the service makes on the node is appended to a log, so that "no ledger I/O"
  and "no retry" are statements about the log. \<^verbatim>\<open>from_key\<close>,
  \<^verbatim>\<open>sign_transaction\<close> and \<^verbatim>\<open>process_receipt\<close> are local computations.
\<close>

datatype rpc =
    IsConnected
  | GetTransactionCount string "block_identifier option"
  | GasPrice
  | BuildTransaction fn_call pydict
  | SendRawTransaction string
  | WaitForTransactionReceipt HexBytes
  | Call fn_call

text \<open>The name of the client operation behind a recorded call.\<close>

fun rpc_name :: "rpc \<Rightarrow> string" where
  "rpc_name IsConnected = ''is_connected''"
| "rpc_name (GetTransactionCount a b) = ''get_transaction_count''"
| "rpc_name GasPrice = ''gas_price''"
| "rpc_name (BuildTransaction f p) = ''build_transaction''"
| "rpc_name (SendRawTransaction raw) = ''send_raw_transaction''"
| "rpc_name (WaitForTransactionReceipt h) = ''wait_for_transaction_receipt''"
| "rpc_name (Call f) = ''call''"

text \<open>The client calls of the transaction pipeline, in the order the source makes them.\<close>

definition pipeline_names :: "string list" where
  "pipeline_names = [''get_transaction_count'', ''gas_price'', ''build_transaction'',
     ''send_raw_transaction'', ''wait_for_transaction_receipt'']"

type_synonym 'w st = "'w \<times> rpc list"

type_synonym ('a, 'w) io = "'w st \<Rightarrow> (exn + 'a) \<times> 'w st"

definition then_do :: "('a, 'w) io \<Rightarrow> ('a \<Rightarrow> ('b, 'w) io) \<Rightarrow> ('b, 'w) io" where
  "then_do m f s = (case m s of (Inl e, s') \<Rightarrow> (Inl e, s') | (Inr a, s') \<Rightarrow> f a s')"

definition return :: "'a \<Rightarrow> ('a, 'w) io" where
  "return a s = (Inr a, s)"

definition raise :: "exn \<Rightarrow> ('a, 'w) io" where
  "raise e s = (Inl e, s)"

text \<open>A local computation that may raise.\<close>

definition local :: "exn + 'a \<Rightarrow> ('a, 'w) io" where
  "local r s = (r, s)"

text \<open>A call that reads the node, and a call that may change it.\<close>

definition query :: "rpc \<Rightarrow> ('w \<Rightarrow> exn + 'a) \<Rightarrow> ('a, 'w) io" where
  "query c f s = (f (fst s), (fst s, snd s @ [c]))"

definition command :: "rpc \<Rightarrow> ('w \<Rightarrow> (exn + 'a) \<times> 'w) \<Rightarrow> ('a, 'w) io" where
  "command c f s = (fst (f (fst s)), (snd (f (fst s)), snd s @ [c]))"

text \<open>
  \<^verbatim>\<open>try: ... except Exception as e: raise Exception(f"<prefix>{str(e)}")\<close>
\<close>

definition try_except :: "string \<Rightarrow> ('a, 'w) io \<Rightarrow> ('a, 'w) io" where
  "try_except prefix m s =
     (case m s of
        (Inl e, s') \<Rightarrow> (Inl (Exception (prefix @ str e)), s')
      | (Inr a, s') \<Rightarrow> (Inr a, s'))"

section \<open>Status derivation\<close>

text \<open>
  \<^verbatim>\<open>
  def _get_contract_status(self, farmer_signed, buyer_signed, settled):
      if settled: return "SETTLED"
      elif farmer_signed and buyer_signed: return "SIGNED_BY_BOTH"
      elif farmer_signed: return "WAITING_FOR_BUYER"
      else: return "PENDING"
  \<close>
  The three arguments are the \<^verbatim>\<open>bool\<close> components 7, 8 and 9 of the decoded
  contract tuple. (An Isabelle name cannot start with an underscore.)
\<close>

definition get_contract_status :: "bool \<Rightarrow> bool \<Rightarrow> bool \<Rightarrow> string" where
  "get_contract_status farmer_signed buyer_signed settled =
     (if settled then ''SETTLED''
      else if farmer_signed \<and> buyer_signed then ''SIGNED_BY_BOTH''
      else if farmer_signed then ''WAITING_FOR_BUYER''
      else ''PENDING'')"

section \<open>The service\<close>

record 'w BlockchainService =
  rpc_url :: string
  contract_address :: string
  private_key :: string
  w3 :: "'w Web3"
  contract :: "string option"

text \<open>\<^verbatim>\<open>os.getenv(key, default)\<close> on the environment (after \<^verbatim>\<open>load_dotenv()\<close>).\<close>

definition getenv :: "(string \<rightharpoonup> string) \<Rightarrow> string \<Rightarrow> string \<Rightarrow> string" where
  "getenv environ key dflt = (case environ key of None \<Rightarrow> dflt | Some v \<Rightarrow> v)"

text \<open>
  \<^verbatim>\<open>__init__\<close>. \<open>web3\<close> is the client that
  \<^verbatim>\<open>Web3(Web3.HTTPProvider(self.rpc_url))\<close> builds. The contract object exists when
  the address is non-empty and \<^verbatim>\<open>is_address\<close> accepts it (the \<^verbatim>\<open>and\<close> does
  not ask \<^verbatim>\<open>is_address\<close> about the empty string); it is given by its address.
\<close>

definition init :: "'w Web3 \<Rightarrow> (string \<rightharpoonup> string) \<Rightarrow> 'w BlockchainService" where
  "init web3 environ =
     (let url = getenv environ ''POLYGON_RPC_URL'' ''https://rpc-mumbai.maticvigil.com'';
          addr = getenv environ ''CONTRACT_ADDRESS'' '''';
          key = getenv environ ''PRIVATE_KEY'' ''''
      in \<lparr> rpc_url = url, contract_address = addr, private_key = key, w3 = web3,
           contract = (if addr \<noteq> [] \<and> is_address web3 addr
                       then Some (to_checksum_address web3 addr) else None) \<rparr>)"

text \<open>
  \<^verbatim>\<open>
  def is_configured(self):
      return (self.contract_address and self.private_key and
              self.contract is not None and self.w3.is_connected())
  \<close>
  Python's \<^verbatim>\<open>and\<close> returns its first falsy operand, else the last one, and
  evaluates no operand after a falsy one: the node is probed only when the three
  operands before it are truthy.
\<close>

definition is_configured :: "'w BlockchainService \<Rightarrow> 'w st \<Rightarrow> pyval \<times> 'w st" where
  "is_configured self s =
     (if \<not> truthy (PyStr (contract_address self)) then (PyStr (contract_address self), s)
      else if \<not> truthy (PyStr (private_key self)) then (PyStr (private_key self), s)
      else if \<not> truthy (PyBool (contract self \<noteq> None)) then (PyBool (contract self \<noteq> None), s)
      else (PyBool (is_connected (w3 self) (fst s)), (fst s, snd s @ [IsConnected])))"

text \<open>
  \<^verbatim>\<open>self.contract.functions.<f>\<close>: the attribute access on \<^verbatim>\<open>None\<close> raises
  when there is no contract object; then the ABI check of the arguments.
\<close>

definition entry_point :: "'w BlockchainService \<Rightarrow> fn_call \<Rightarrow> (string, 'w) io" where
  "entry_point self f =
     (case contract self of
        None \<Rightarrow> raise (Exn ''AttributeError'' ''NoneType object has no attribute functions'')
      | Some a \<Rightarrow>
          (case contract_functions (w3 self) f of
             Some e \<Rightarrow> raise e
           | None \<Rightarrow> return a))"

text \<open>
  The body of \<^verbatim>\<open>create_contract\<close> and \<^verbatim>\<open>sign_contract\<close> between
  \<^verbatim>\<open>try:\<close> and the \<^verbatim>\<open>return\<close>: both write the same six statements, with their
  own entry point and gas limit. It yields the transaction hash and the receipt.
  The entry point object is created before the dictionary of parameters is evaluated,
  so the ABI check precedes the gas price query.
\<close>

definition send_transaction ::
  "'w BlockchainService \<Rightarrow> fn_call \<Rightarrow> int \<Rightarrow> (HexBytes \<times> receipt, 'w) io" where
  "send_transaction self f gas =
     then_do (local (from_key (w3 self) (private_key self))) (\<lambda>account.
     then_do (query (GetTransactionCount (address account) None)
                (get_transaction_count (w3 self) (address account) None)) (\<lambda>nonce.
     then_do (entry_point self f) (\<lambda>a.
     then_do (query GasPrice (gas_price (w3 self))) (\<lambda>gasPrice.
     let params = [(''from'', PyStr (address account)), (''nonce'', PyInt nonce),
                   (''gas'', PyInt gas), (''gasPrice'', PyInt gasPrice)] in
     then_do (query (BuildTransaction f params) (build_transaction (w3 self) a f params)) (\<lambda>transaction.
     then_do (local (sign_transaction (w3 self) transaction (private_key self))) (\<lambda>signed_txn.
     then_do (command (SendRawTransaction (rawTransaction signed_txn))
                (send_raw_transaction (w3 self) (rawTransaction signed_txn))) (\<lambda>tx_hash.
     then_do (command (WaitForTransactionReceipt tx_hash)
                (wait_for_transaction_receipt (w3 self) tx_hash)) (\<lambda>receipt.
     return (tx_hash, receipt)))))))))"

text \<open>
  \<^verbatim>\<open>create_contract(self, commodity, quantity, price_per_unit,
  delivery_date_timestamp, farmer_address)\<close>. The gate is outside the \<^verbatim>\<open>try\<close>.
  \<^verbatim>\<open>contract_id = logs[0]['args']['contractId'] if logs else None\<close>.
\<close>

definition create_contract ::
  "'w BlockchainService \<Rightarrow> string \<Rightarrow> int \<Rightarrow> int \<Rightarrow> int \<Rightarrow> string \<Rightarrow> (pydict, 'w) io" where
  "create_contract self commodity quantity price_per_unit delivery_date_timestamp farmer_address s =
     (case is_configured self s of (configured, s1) \<Rightarrow>
        if \<not> truthy configured
        then raise (Exception ''Blockchain service not configured. Please set CONTRACT_ADDRESS and PRIVATE_KEY in .env'') s1
        else try_except ''Error creating contract: ''
          (then_do (send_transaction self
               (createContract commodity quantity price_per_unit delivery_date_timestamp) 500000)
             (\<lambda>(tx_hash, receipt).
           then_do (local (process_receipt (w3 self) receipt)) (\<lambda>logs.
           let contract_id = (case logs of [] \<Rightarrow> PyNone | l # _ \<Rightarrow> PyInt (contractId l)) in
           return [(''success'', PyBool True),
                   (''transaction_hash'', PyStr (hex tx_hash)),
                   (''contract_id'', contract_id),
                   (''block_number'', PyInt (blockNumber receipt)),
                   (''gas_used'', PyInt (gasUsed receipt))]))) s1)"

text \<open>\<^verbatim>\<open>sign_contract(self, contract_id, buyer_address)\<close>.\<close>

definition sign_contract ::
  "'w BlockchainService \<Rightarrow> int \<Rightarrow> string \<Rightarrow> (pydict, 'w) io" where
  "sign_contract self contract_id buyer_address s =
     (case is_configured self s of (configured, s1) \<Rightarrow>
        if \<not> truthy configured
        then raise (Exception ''Blockchain service not configured'') s1
        else try_except ''Error signing contract: ''
          (then_do (send_transaction self (signAsBuyer contract_id) 300000)
             (\<lambda>(tx_hash, receipt).
           return [(''success'', PyBool True),
                   (''transaction_hash'', PyStr (hex tx_hash)),
                   (''block_number'', PyInt (blockNumber receipt)),
                   (''gas_used'', PyInt (gasUsed receipt))])) s1)"

text \<open>
  \<^verbatim>\<open>get_contract_details(self, contract_id)\<close>. The dictionary is built in the
  order of its keys: the date of component 6 is formatted before that of component 10.
\<close>

definition get_contract_details :: "'w BlockchainService \<Rightarrow> int \<Rightarrow> (pydict, 'w) io" where
  "get_contract_details self contract_id s =
     (case is_configured self s of (configured, s1) \<Rightarrow>
        if \<not> truthy configured
        then raise (Exception ''Blockchain service not configured'') s1
        else try_except ''Error fetching contract details: ''
          (then_do (entry_point self (getContract contract_id)) (\<lambda>a.
           then_do (query (Call (getContract contract_id))
                      (call_getContract (w3 self) a contract_id)) (\<lambda>contract_data.
           then_do (local (strftime (w3 self) (t_deliveryDate contract_data) ''%Y-%m-%d'')) (\<lambda>delivery_date.
           then_do (local (strftime (w3 self) (t_createdAt contract_data) ''%Y-%m-%d %H:%M:%S'')) (\<lambda>created_at.
           return [(''contract_id'', PyInt (t_id contract_data)),
                   (''farmer_address'', PyStr (t_farmer contract_data)),
                   (''buyer_address'', PyStr (t_buyer contract_data)),
                   (''commodity'', PyStr (t_commodity contract_data)),
                   (''quantity'', PyInt (t_quantity contract_data)),
                   (''price_per_unit'', PyInt (t_pricePerUnit contract_data)),
                   (''delivery_date'', PyStr delivery_date),
                   (''delivery_date_timestamp'', PyInt (t_deliveryDate contract_data)),
                   (''farmer_signed'', PyBool (t_farmerSigned contract_data)),
                   (''buyer_signed'', PyBool (t_buyerSigned contract_data)),
                   (''settled'', PyBool (t_settled contract_data)),
                   (''created_at'', PyStr created_at),
                   (''total_value'', PyInt (t_quantity contract_data * t_pricePerUnit contract_data)),
                   (''status'', PyStr (get_contract_status (t_farmerSigned contract_data)
                        (t_buyerSigned contract_data) (t_settled contract_data)))]))))) s1)"

text \<open>
  \<^verbatim>\<open>
  def get_total_contracts(self):
      if not self.is_configured(): return 0
      try: return self.contract.functions.getTotalContracts().call()
      except: return 0
  \<close>
  The result type keeps the exception branch, so that "never raises" is a statement.
  A raised exception leaves the state the failed call left.
\<close>

definition get_total_contracts :: "'w BlockchainService \<Rightarrow> (int, 'w) io" where
  "get_total_contracts self s =
     (case is_configured self s of (configured, s1) \<Rightarrow>
        if \<not> truthy configured then return 0 s1
        else (case then_do (entry_point self getTotalContracts) (\<lambda>a.
                     query (Call getTotalContracts) (call_getTotalContracts (w3 self) a)) s1 of
                (Inl e, s2) \<Rightarrow> return 0 s2
              | (Inr n, s2) \<Rightarrow> return n s2))"

text \<open>
  The status report of \<^verbatim>\<open>src/backend/app.py\<close>:
  \<^verbatim>\<open>
  async def blockchain_status():
      try:
          is_configured = blockchain_service.is_configured()
          total_contracts = blockchain_service.get_total_contracts() if is_configured else 0
          return {"success": True, "configured": is_configured,
                  "connected": blockchain_service.w3.is_connected() if blockchain_service.w3 else False,
                  "rpc_url": blockchain_service.rpc_url,
                  "contract_address": blockchain_service.contract_address if is_configured else None,
                  "total_contracts": total_contracts,
                  "message": "Blockchain service is operational" if is_configured else "Blockchain not configured. Set CONTRACT_ADDRESS and PRIVATE_KEY in .env"}
      except Exception as e:
          return {"success": False, "configured": False, "error": str(e)}
  \<close>
  It returns a dictionary on every path. The client object \<^verbatim>\<open>w3\<close> is truthy.
\<close>

definition blockchain_status :: "'w BlockchainService \<Rightarrow> 'w st \<Rightarrow> pydict \<times> 'w st" where
  "blockchain_status blockchain_service s =
     (case is_configured blockchain_service s of (is_conf, s1) \<Rightarrow>
        (case (if truthy is_conf then get_total_contracts blockchain_service s1 else return 0 s1) of
           (Inl e, s2) \<Rightarrow>
             ([(''success'', PyBool False), (''configured'', PyBool False), (''error'', PyStr (str e))], s2)
         | (Inr total_contracts, s2) \<Rightarrow>
             ([(''success'', PyBool True),
               (''configured'', is_conf),
               (''connected'', PyBool (is_connected (w3 blockchain_service) (fst s2))),
               (''rpc_url'', PyStr (rpc_url blockchain_service)),
               (''contract_address'',
                  if truthy is_conf then PyStr (contract_address blockchain_service) else PyNone),
               (''total_contracts'', PyInt total_contracts),
               (''message'', PyStr (if truthy is_conf then ''Blockchain service is operational''
                  else ''Blockchain not configured. Set CONTRACT_ADDRESS and PRIVATE_KEY in .env''))],
              (fst s2, snd s2 @ [IsConnected]))))"

section \<open>A fake ledger\<close>

text \<open>
  A node small enough to run by hand, for the concrete runs below. It serves one signing
  account: \<open>mined\<close> are that account's raw transactions included in blocks,
  \<open>mempool\<close> those submitted and not yet mined. \<open>confirms\<close> says whether a wait sees
  the pool mined before it times out, \<open>emitted\<close> are the logs of the block then mined,
  \<open>stored\<close> the contracts of the ledger program by id.
\<close>

record node =
  up :: bool
  mined :: "string list"
  mempool :: "string list"
  confirms :: bool
  emitted :: "log list"
  stored :: "(int \<times> contract_data) list"

text \<open>What a read of an id the program never stored decodes to: every component zero.\<close>

definition zero_address :: string where
  "zero_address = ''0x0000000000000000000000000000000000000000''"

definition zero_contract :: contract_data where
  "zero_contract =
     \<lparr> t_id = 0, t_farmer = zero_address, t_buyer = zero_address, t_commodity = '''',
       t_quantity = 0, t_pricePerUnit = 0, t_deliveryDate = 0, t_farmerSigned = False,
       t_buyerSigned = False, t_settled = False, t_createdAt = 0 \<rparr>"

fun created_events :: "log list \<Rightarrow> ContractCreated list" where
  "created_events [] = []"
| "created_events (ContractCreatedLog e # ls) = e # created_events ls"
| "created_events (_ # ls) = created_events ls"

text \<open>A calendar (UTC) that knows the time stamps of the runs below and no other.\<close>

definition fake_strftime :: "int \<Rightarrow> string \<Rightarrow> exn + string" where
  "fake_strftime t fmt =
     (case map_of
        [((0, ''%Y-%m-%d''), ''1970-01-01''),
         ((0, ''%Y-%m-%d %H:%M:%S''), ''1970-01-01 00:00:00''),
         ((1748736000, ''%Y-%m-%d''), ''2025-06-01''),
         ((1735689600, ''%Y-%m-%d %H:%M:%S''), ''2025-01-01 00:00:00'')] (t, fmt) of
        Some d \<Rightarrow> Inr d
      | None \<Rightarrow> Inl (Exn ''OverflowError'' ''timestamp out of range for platform time_t''))"

definition nonce_of :: "pydict \<Rightarrow> nat" where
  "nonce_of p = (case map_of p ''nonce'' of Some (PyInt n) \<Rightarrow> nat n | _ \<Rightarrow> 0)"

text \<open>
  The client of the fake node. A transaction count asked with no block identifier is
  answered for the client's default block, \<^verbatim>\<open>latest\<close>: the mined transactions. Only
  \<^verbatim>\<open>pending\<close> adds the pool. A signed transaction is told apart by its nonce
  alone; the node refuses one whose nonce is already mined or already in the pool.
\<close>

definition fake_web3 :: "node Web3" where
  "fake_web3 =
     \<lparr> is_address = (\<lambda>a. length a = 42 \<and> take 2 a = ''0x''),
       to_checksum_address = (\<lambda>a. a),
       is_connected = up,
       from_key = (\<lambda>k. if k = [] then Inl (Exn ''ValueError'' ''The private key must be exactly 32 bytes long'')
                         else Inr \<lparr> address = ''0xACC0'' \<rparr>),
       get_transaction_count = (\<lambda>a b n.
          Inr (int (length (mined n)) + (if b = Some Pending then int (length (mempool n)) else 0))),
       gas_price = (\<lambda>n. Inr 30),
       contract_functions = (\<lambda>f. None),
       build_transaction = (\<lambda>a f p n. Inr \<lparr> tx_to = a, tx_data = f, tx_params = p \<rparr>),
       sign_transaction = (\<lambda>t k. Inr \<lparr> rawTransaction = ''tx'' @ replicate (nonce_of (tx_params t)) CHR ''+'' \<rparr>),
       send_raw_transaction = (\<lambda>raw n.
          if raw \<in> set (mined n) then (Inl (Exn ''ValueError'' ''nonce too low''), n)
          else if raw \<in> set (mempool n)
          then (Inl (Exn ''ValueError'' ''replacement transaction underpriced''), n)
          else (Inr (HexBytes (''0x'' @ raw)), n\<lparr> mempool := mempool n @ [raw] \<rparr>)),
       wait_for_transaction_receipt = (\<lambda>h n.
          if confirms n
          then (Inr \<lparr> blockNumber = 1, gasUsed = 21000, logs = emitted n \<rparr>,
                n\<lparr> mined := mined n @ mempool n, mempool := [] \<rparr>)
          else (Inl (Exn ''TimeExhausted'' ''Transaction is not in the chain after 120 seconds''), n)),
       process_receipt = (\<lambda>r. Inr (created_events (logs r))),
       call_getContract = (\<lambda>a i n. case map_of (stored n) i of Some t \<Rightarrow> Inr t | None \<Rightarrow> Inr zero_contract),
       call_getTotalContracts = (\<lambda>a n. Inr (int (length (stored n)))),
       strftime = fake_strftime \<rparr>"

definition fake_address :: string where
  "fake_address = ''0x5FbDB2315678afecb367f032d93F642f64180aa3''"

definition fake_environ :: "string \<rightharpoonup> string" where
  "fake_environ = map_of [(''CONTRACT_ADDRESS'', fake_address), (''PRIVATE_KEY'', ''0xkey'')]"

definition fake_service :: "node BlockchainService" where
  "fake_service = init fake_web3 fake_environ"

text \<open>The contract of the end-to-end scenario, stored under id 1, and one with the largest quantity and price of the ledger's integer width under id 2.\<close>

definition soybean :: contract_data where
  "soybean =
     \<lparr> t_id = 1, t_farmer = ''0xABC0'', t_buyer = zero_address, t_commodity = ''Soybean'',
       t_quantity = 100, t_pricePerUnit = 5000, t_deliveryDate = 1748736000,
       t_farmerSigned = True, t_buyerSigned = False, t_settled = False,
       t_createdAt = 1735689600 \<rparr>"

definition node0 :: node where
  "node0 =
     \<lparr> up = True, mined = [], mempool = [], confirms = True,
       emitted = [ContractCreatedLog \<lparr> contractId = 1, ev_farmer = ''0xACC0'',
                    ev_commodity = ''Soybean'', ev_quantity = 100, ev_pricePerUnit = 5000,
                    ev_deliveryDate = 1748736000 \<rparr>],
       stored = [(1, soybean),
                 (2, soybean\<lparr> t_id := 2, t_quantity := 2 ^ 256 - 1, t_pricePerUnit := 2 ^ 256 - 1 \<rparr>)] \<rparr>"

text \<open>
  The same service on a ledger program that reverts every read, and on an environment
  that sets the contract address and no private key.
\<close>

definition reverting_service :: "node BlockchainService" where
  "reverting_service =
     fake_service\<lparr> w3 := fake_web3
       \<lparr> call_getContract := (\<lambda>a i n. Inl (Exn ''ContractLogicError'' ''execution reverted: Contract does not exist'')),
         call_getTotalContracts := (\<lambda>a n. Inl (Exn ''ContractLogicError'' ''execution reverted'')) \<rparr> \<rparr>"

definition keyless_service :: "node BlockchainService" where
  "keyless_service = init fake_web3 (map_of [(''CONTRACT_ADDRESS'', fake_address)])"

section \<open>The gate, the pipeline and the read model: auxiliary facts\<close>

lemma gate_falsy:
  assumes "\<not> truthy (fst (is_configured self s))"
  shows "fst (snd (is_configured self s)) = fst s"
    and "snd (snd (is_configured self s)) = snd s \<or> snd (snd (is_configured self s)) = snd s @ [IsConnected]"
    and "fst (is_configured self s) = PyStr [] \<or> fst (is_configured self s) = PyBool False"
  using assms by (auto simp: is_configured_def split: if_splits)

lemma gate_truthy:
  assumes "truthy (fst (is_configured self s))"
  shows "is_configured self s = (PyBool True, (fst s, snd s @ [IsConnected]))"
    and "contract_address self \<noteq> []" and "private_key self \<noteq> []"
    and "contract self \<noteq> None" and "is_connected (w3 self) (fst s)"
  using assms by (auto simp: is_configured_def split: if_splits)

lemma init_contract:
  "contract (init web3 environ) \<noteq> None \<longleftrightarrow>
     contract_address (init web3 environ) \<noteq> [] \<and> is_address web3 (contract_address (init web3 environ))"
  by (simp add: init_def Let_def)

lemma send_transaction_log:
  "\<exists>l. snd (snd (send_transaction self f gas s)) = snd s @ l
       \<and> map rpc_name l = take (length l) pipeline_names
       \<and> (\<forall>f' ps. BuildTransaction f' ps \<in> set l \<longrightarrow> f' = f)"
  by (auto simp: send_transaction_def then_do_def query_def command_def local_def return_def
        raise_def entry_point_def Let_def pipeline_names_def
      split: sum.splits option.splits prod.splits)

lemma try_except_state: "snd (try_except p m s) = snd (m s)"
  by (simp add: try_except_def split: prod.splits sum.splits)

lemma try_except_Inl:
  "fst (try_except p m s) = Inl e \<Longrightarrow> \<exists>e'. fst (m s) = Inl e' \<and> e = Exception (p @ str e')"
  by (auto simp: try_except_def split: prod.splits sum.splits)

lemma create_contract_log:
  "\<exists>l. snd (snd (create_contract self c q p d fa s)) = snd s @ l
       \<and> map rpc_name l = take (length l) (''is_connected'' # pipeline_names)
       \<and> (\<forall>f' ps. BuildTransaction f' ps \<in> set l \<longrightarrow> f' = createContract c q p d)"
proof (cases "truthy (fst (is_configured self s))")
  case False
  from gate_falsy(2)[OF False] False show ?thesis
    by (auto simp: create_contract_def raise_def pipeline_names_def split: prod.splits)
next
  case True
  let ?s1 = "(fst s, snd s @ [IsConnected])"
  obtain l where l: "snd (snd (send_transaction self (createContract c q p d) 500000 ?s1)) = snd ?s1 @ l"
    "map rpc_name l = take (length l) pipeline_names"
    "\<forall>f' ps. BuildTransaction f' ps \<in> set l \<longrightarrow> f' = createContract c q p d"
    using send_transaction_log by blast
  have "snd (snd (create_contract self c q p d fa s))
          = snd (snd (send_transaction self (createContract c q p d) 500000 ?s1))"
    using True gate_truthy(1)[OF True]
    by (auto simp: create_contract_def try_except_state then_do_def local_def return_def
          split: prod.splits sum.splits)
  with l have "snd (snd (create_contract self c q p d fa s)) = snd s @ (IsConnected # l)"
    by simp
  moreover have "map rpc_name (IsConnected # l) = take (length (IsConnected # l)) (''is_connected'' # pipeline_names)"
    using l(2) by simp
  moreover have "\<forall>f' ps. BuildTransaction f' ps \<in> set (IsConnected # l) \<longrightarrow> f' = createContract c q p d"
    using l(3) by simp
  ultimately show ?thesis by blast
qed

lemma sign_contract_log:
  "\<exists>l. snd (snd (sign_contract self i ba s)) = snd s @ l
       \<and> map rpc_name l = take (length l) (''is_connected'' # pipeline_names)
       \<and> (\<forall>f' ps. BuildTransaction f' ps \<in> set l \<longrightarrow> f' = signAsBuyer i)"
proof (cases "truthy (fst (is_configured self s))")
  case False
  from gate_falsy(2)[OF False] False show ?thesis
    by (auto simp: sign_contract_def raise_def pipeline_names_def split: prod.splits)
next
  case True
  let ?s1 = "(fst s, snd s @ [IsConnected])"
  obtain l where l: "snd (snd (send_transaction self (signAsBuyer i) 300000 ?s1)) = snd ?s1 @ l"
    "map rpc_name l = take (length l) pipeline_names"
    "\<forall>f' ps. BuildTransaction f' ps \<in> set l \<longrightarrow> f' = signAsBuyer i"
    using send_transaction_log by blast
  have "snd (snd (sign_contract self i ba s))
          = snd (snd (send_transaction self (signAsBuyer i) 300000 ?s1))"
    using True gate_truthy(1)[OF True]
    by (auto simp: sign_contract_def try_except_state then_do_def return_def
          split: prod.splits sum.splits)
  with l have "snd (snd (sign_contract self i ba s)) = snd s @ (IsConnected # l)"
    by simp
  moreover have "map rpc_name (IsConnected # l) = take (length (IsConnected # l)) (''is_connected'' # pipeline_names)"
    using l(2) by simp
  moreover have "\<forall>f' ps. BuildTransaction f' ps \<in> set (IsConnected # l) \<longrightarrow> f' = signAsBuyer i"
    using l(3) by simp
  ultimately show ?thesis by blast
qed

lemma get_contract_details_log:
  "\<exists>l. snd (snd (get_contract_details self i s)) = snd s @ l
       \<and> map rpc_name l = take (length l) [''is_connected'', ''call'']"
proof (cases "truthy (fst (is_configured self s))")
  case False
  from gate_falsy(2)[OF False] False show ?thesis
    by (auto simp: get_contract_details_def raise_def split: prod.splits)
next
  case True
  show ?thesis
    using True gate_truthy(1)[OF True]
    by (auto simp: get_contract_details_def try_except_state then_do_def return_def raise_def
          local_def query_def entry_point_def
          split: prod.splits sum.splits option.splits)
qed

lemma get_contract_details_value:
  assumes "truthy (fst (is_configured self s))" and "contract self = Some a"
    and "contract_functions (w3 self) (getContract i) = None"
    and "call_getContract (w3 self) a i (fst s) = Inr t"
    and "strftime (w3 self) (t_deliveryDate t) ''%Y-%m-%d'' = Inr dd"
    and "strftime (w3 self) (t_createdAt t) ''%Y-%m-%d %H:%M:%S'' = Inr ca"
  shows "fst (get_contract_details self i s) =
     Inr [(''contract_id'', PyInt (t_id t)),
          (''farmer_address'', PyStr (t_farmer t)),
          (''buyer_address'', PyStr (t_buyer t)),
          (''commodity'', PyStr (t_commodity t)),
          (''quantity'', PyInt (t_quantity t)),
          (''price_per_unit'', PyInt (t_pricePerUnit t)),
          (''delivery_date'', PyStr dd),
          (''delivery_date_timestamp'', PyInt (t_deliveryDate t)),
          (''farmer_signed'', PyBool (t_farmerSigned t)),
          (''buyer_signed'', PyBool (t_buyerSigned t)),
          (''settled'', PyBool (t_settled t)),
          (''created_at'', PyStr ca),
          (''total_value'', PyInt (t_quantity t * t_pricePerUnit t)),
          (''status'', PyStr (get_contract_status (t_farmerSigned t) (t_buyerSigned t) (t_settled t)))]"
  using assms gate_truthy(1)[OF assms(1)]
  by (simp add: get_contract_details_def try_except_def then_do_def entry_point_def return_def
       query_def local_def)

lemma get_contract_details_revert:
  assumes "truthy (fst (is_configured self s))" and "contract self = Some a"
    and "contract_functions (w3 self) (getContract i) = None"
    and "call_getContract (w3 self) a i (fst s) = Inl e"
  shows "fst (get_contract_details self i s) = Inl (Exception (''Error fetching contract details: '' @ str e))"
  using assms gate_truthy(1)[OF assms(1)]
  by (simp add: get_contract_details_def try_except_def then_do_def entry_point_def return_def
       query_def local_def)

text \<open>
  The gate of a service built by the constructor: each of the four conditions alone
  makes it falsy, it is truthy exactly when all four pass, and it is then \<^verbatim>\<open>True\<close>.
\<close>

lemma is_configured_of_init:
  assumes "self = init web3 environ"
  shows "(private_key self = [] \<longrightarrow> \<not> truthy (fst (is_configured self s)))
       \<and> (contract_address self = [] \<longrightarrow> \<not> truthy (fst (is_configured self s)))
       \<and> (\<not> is_address web3 (contract_address self) \<longrightarrow> \<not> truthy (fst (is_configured self s)))
       \<and> (\<not> is_connected web3 (fst s) \<longrightarrow> \<not> truthy (fst (is_configured self s)))
       \<and> (truthy (fst (is_configured self s)) \<longleftrightarrow>
            private_key self \<noteq> [] \<and> contract_address self \<noteq> []
            \<and> is_address web3 (contract_address self) \<and> is_connected web3 (fst s))
       \<and> (fst (is_configured self s) = PyBool True \<longleftrightarrow> truthy (fst (is_configured self s)))
       \<and> (\<not> truthy (fst (is_configured self s)) \<longrightarrow>
            fst (is_configured self s) = PyStr [] \<or> fst (is_configured self s) = PyBool False)"
  using assms init_contract[of web3 environ]
  by (auto simp: is_configured_def init_def Let_def split: if_splits)

text \<open>Evaluating the fake service.\<close>

lemmas fake_defs =
  fake_service_def keyless_service_def reverting_service_def init_def getenv_def fake_environ_def
  fake_address_def fake_web3_def node0_def soybean_def zero_contract_def zero_address_def
  fake_strftime_def nonce_of_def Let_def

lemmas service_defs =
  is_configured_def create_contract_def sign_contract_def get_contract_details_def
  get_total_contracts_def blockchain_status_def send_transaction_def entry_point_def
  then_do_def return_def raise_def local_def query_def command_def try_except_def
  Exception_def get_contract_status_def

section \<open>The claims\<close>

text \<open>
  C1. For every triple of booleans (farmerSigned, buyerSigned, settled) the status
  derivation returns one of the four statuses, chosen by the precedence chain
  settled, then both signed, then farmer signed, then the default. The eight rows
  of the table are listed, the four statuses are pairwise different, and the
  result always lies among them.
\<close>

theorem C1_status_precedence:
  "get_contract_status False False False = ''PENDING''
   \<and> get_contract_status False True False = ''PENDING''
   \<and> get_contract_status True False False = ''WAITING_FOR_BUYER''
   \<and> get_contract_status True True False = ''SIGNED_BY_BOTH''
   \<and> get_contract_status False False True = ''SETTLED''
   \<and> get_contract_status False True True = ''SETTLED''
   \<and> get_contract_status True False True = ''SETTLED''
   \<and> get_contract_status True True True = ''SETTLED''
   \<and> get_contract_status f b s \<in> {''PENDING'', ''WAITING_FOR_BUYER'', ''SIGNED_BY_BOTH'', ''SETTLED''}
   \<and> distinct [''PENDING'', ''WAITING_FOR_BUYER'', ''SIGNED_BY_BOTH'', ''SETTLED'']"
  by (simp add: get_contract_status_def)

text \<open>
  C2, as the claim states it, fails: on the fake ledger, id 7 is stored nowhere and the
  read decodes to the all-zero tuple; \<open>get_contract_details\<close> does not fail, it returns
  the zero-valued view with status PENDING.
\<close>

theorem C2_sentinel_counterexample:
  "map_of (stored node0) 7 = None
   \<and> call_getContract (w3 fake_service) fake_address 7 node0 = Inr zero_contract
   \<and> fst (get_contract_details fake_service 7 (node0, [])) =
       Inr [(''contract_id'', PyInt 0),
            (''farmer_address'', PyStr ''0x0000000000000000000000000000000000000000''),
            (''buyer_address'', PyStr ''0x0000000000000000000000000000000000000000''),
            (''commodity'', PyStr ''''),
            (''quantity'', PyInt 0),
            (''price_per_unit'', PyInt 0),
            (''delivery_date'', PyStr ''1970-01-01''),
            (''delivery_date_timestamp'', PyInt 0),
            (''farmer_signed'', PyBool False),
            (''buyer_signed'', PyBool False),
            (''settled'', PyBool False),
            (''created_at'', PyStr ''1970-01-01 00:00:00''),
            (''total_value'', PyInt 0),
            (''status'', PyStr ''PENDING'')]"
  by (simp add: fake_defs service_defs)

text \<open>
  C2, amended. On a configured service whose read passes the ABI check: when the ledger
  program reverts, \<open>get_contract_details\<close> fails, with the generic exception whose
  message is the fixed prefix and the revert's message; when the read decodes to the
  all-zero tuple (and the calendar formats time stamp 0), it returns the zero-valued
  view, with total value 0 and status PENDING.
\<close>

theorem C2_unknown_id:
  assumes "truthy (fst (is_configured self s))" and "contract self = Some a"
    and "contract_functions (w3 self) (getContract i) = None"
  shows "(\<forall>e. call_getContract (w3 self) a i (fst s) = Inl e \<longrightarrow>
            fst (get_contract_details self i s)
              = Inl (Exception (''Error fetching contract details: '' @ str e)))
       \<and> (\<forall>dd ca. call_getContract (w3 self) a i (fst s) = Inr zero_contract
            \<and> strftime (w3 self) 0 ''%Y-%m-%d'' = Inr dd
            \<and> strftime (w3 self) 0 ''%Y-%m-%d %H:%M:%S'' = Inr ca \<longrightarrow>
            fst (get_contract_details self i s) =
              Inr [(''contract_id'', PyInt 0),
                   (''farmer_address'', PyStr zero_address),
                   (''buyer_address'', PyStr zero_address),
                   (''commodity'', PyStr ''''),
                   (''quantity'', PyInt 0),
                   (''price_per_unit'', PyInt 0),
                   (''delivery_date'', PyStr dd),
                   (''delivery_date_timestamp'', PyInt 0),
                   (''farmer_signed'', PyBool False),
                   (''buyer_signed'', PyBool False),
                   (''settled'', PyBool False),
                   (''created_at'', PyStr ca),
                   (''total_value'', PyInt 0),
                   (''status'', PyStr ''PENDING'')])"
proof (intro conjI allI impI)
  fix e assume "call_getContract (w3 self) a i (fst s) = Inl e"
  with assms show "fst (get_contract_details self i s)
      = Inl (Exception (''Error fetching contract details: '' @ str e))"
    by (rule get_contract_details_revert)
next
  fix dd ca
  assume h: "call_getContract (w3 self) a i (fst s) = Inr zero_contract
     \<and> strftime (w3 self) 0 ''%Y-%m-%d'' = Inr dd
     \<and> strftime (w3 self) 0 ''%Y-%m-%d %H:%M:%S'' = Inr ca"
  have "fst (get_contract_details self i s) =
     Inr [(''contract_id'', PyInt (t_id zero_contract)),
          (''farmer_address'', PyStr (t_farmer zero_contract)),
          (''buyer_address'', PyStr (t_buyer zero_contract)),
          (''commodity'', PyStr (t_commodity zero_contract)),
          (''quantity'', PyInt (t_quantity zero_contract)),
          (''price_per_unit'', PyInt (t_pricePerUnit zero_contract)),
          (''delivery_date'', PyStr dd),
          (''delivery_date_timestamp'', PyInt (t_deliveryDate zero_contract)),
          (''farmer_signed'', PyBool (t_farmerSigned zero_contract)),
          (''buyer_signed'', PyBool (t_buyerSigned zero_contract)),
          (''settled'', PyBool (t_settled zero_contract)),
          (''created_at'', PyStr ca),
          (''total_value'', PyInt (t_quantity zero_contract * t_pricePerUnit zero_contract)),
          (''status'', PyStr (get_contract_status (t_farmerSigned zero_contract)
             (t_buyerSigned zero_contract) (t_settled zero_contract)))]"
  proof (rule get_contract_details_value[OF assms])
    show "call_getContract (w3 self) a i (fst s) = Inr zero_contract"
      using h by simp
    show "strftime (w3 self) (t_deliveryDate zero_contract) ''%Y-%m-%d'' = Inr dd"
      using h by (simp add: zero_contract_def)
    show "strftime (w3 self) (t_createdAt zero_contract) ''%Y-%m-%d %H:%M:%S'' = Inr ca"
      using h by (simp add: zero_contract_def)
  qed
  then show "fst (get_contract_details self i s) =
              Inr [(''contract_id'', PyInt 0),
                   (''farmer_address'', PyStr zero_address),
                   (''buyer_address'', PyStr zero_address),
                   (''commodity'', PyStr ''''),
                   (''quantity'', PyInt 0),
                   (''price_per_unit'', PyInt 0),
                   (''delivery_date'', PyStr dd),
                   (''delivery_date_timestamp'', PyInt 0),
                   (''farmer_signed'', PyBool False),
                   (''buyer_signed'', PyBool False),
                   (''settled'', PyBool False),
                   (''created_at'', PyStr ca),
                   (''total_value'', PyInt 0),
                   (''status'', PyStr ''PENDING'')]"
    by (simp add: zero_contract_def get_contract_status_def)
qed

text \<open>
  Both branches at concrete inputs: the reverting ledger program, and the fake ledger
  at the unknown id 7.
\<close>

theorem C2_unknown_id_witness:
  "fst (get_contract_details reverting_service 7 (node0, []))
     = Inl (Exception ''Error fetching contract details: execution reverted: Contract does not exist'')
   \<and> map_of (projr (fst (get_contract_details fake_service 7 (node0, [])))) ''status''
       = Some (PyStr ''PENDING'')"
proof -
  have g1: "truthy (fst (is_configured reverting_service (node0, [])))"
    by (simp add: fake_defs service_defs)
  have c1: "contract reverting_service = Some fake_address"
    by (simp add: fake_defs)
  have f1: "contract_functions (w3 reverting_service) (getContract 7) = None"
    by (simp add: fake_defs)
  have r1: "call_getContract (w3 reverting_service) fake_address 7 (fst (node0, []))
      = Inl (Exn ''ContractLogicError'' ''execution reverted: Contract does not exist'')"
    by (simp add: fake_defs)
  have g2: "truthy (fst (is_configured fake_service (node0, [])))"
    by (simp add: fake_defs service_defs)
  have c2: "contract fake_service = Some fake_address"
    by (simp add: fake_defs)
  have f2: "contract_functions (w3 fake_service) (getContract 7) = None"
    by (simp add: fake_defs)
  have r2: "call_getContract (w3 fake_service) fake_address 7 (fst (node0, [])) = Inr zero_contract
     \<and> strftime (w3 fake_service) 0 ''%Y-%m-%d'' = Inr ''1970-01-01''
     \<and> strftime (w3 fake_service) 0 ''%Y-%m-%d %H:%M:%S'' = Inr ''1970-01-01 00:00:00''"
    by (simp add: fake_defs)
  from C2_unknown_id[OF g1 c1 f1] r1
  have "fst (get_contract_details reverting_service 7 (node0, []))
     = Inl (Exception ''Error fetching contract details: execution reverted: Contract does not exist'')"
    by simp
  moreover from C2_unknown_id[OF g2 c2 f2] r2
  have "map_of (projr (fst (get_contract_details fake_service 7 (node0, [])))) ''status''
       = Some (PyStr ''PENDING'')"
    by simp
  ultimately show ?thesis by simp
qed

text \<open>
  C3, as the claim states it, fails: a service with no private key (the NotConfigured
  kind) and a configured service whose node does not answer the liveness probe (the
  Unreachable kind) surface the same exception, class and message, from
  \<open>create_contract\<close>.
\<close>

theorem C3_kinds_collapse_counterexample:
  "private_key keyless_service = '''' \<and> private_key fake_service = ''0xkey''
   \<and> contract_address fake_service = fake_address \<and> is_address fake_web3 fake_address
   \<and> fst (create_contract keyless_service ''Soybean'' 100 5000 1748736000 ''0xABC0'' (node0, []))
       = Inl (Exn ''Exception'' ''Blockchain service not configured. Please set CONTRACT_ADDRESS and PRIVATE_KEY in .env'')
   \<and> fst (create_contract fake_service ''Soybean'' 100 5000 1748736000 ''0xABC0'' (node0\<lparr>up := False\<rparr>, []))
       = Inl (Exn ''Exception'' ''Blockchain service not configured. Please set CONTRACT_ADDRESS and PRIVATE_KEY in .env'')"
  by (simp add: fake_defs service_defs)

text \<open>
  C3, amended. Every exception raised while one of the three operations runs is
  surfaced to the caller as an exception of the one class \<^verbatim>\<open>Exception\<close>, carrying
  a message only. When the gate is false the message is the fixed "not configured"
  text, whatever made the gate false. When the gate is open, the steps of the operation
  run in the order of the source, and the first step that raises decides the result: it
  is \<^verbatim>\<open>Exception\<close> with the operation's fixed prefix followed by the message of
  the exception that step raised, whose class is dropped. For a creation the steps are
  the key, the transaction count, the ABI check, the gas price, the building, the
  signing, the submission, the wait and the decoding of the events; for a signing the
  same up to the wait; for a read the ABI check, the read and the formatting of the
  two dates. When no step raises the operation returns a value. Nothing is retried: the
  calls an operation adds to the log are an initial part of the liveness probe followed
  by the pipeline's calls, each at most once (for a read: the probe and one call).
\<close>

theorem C3_failures_surfaced:
  "(\<not> truthy (fst (is_configured self s)) \<longrightarrow>
      fst (create_contract self c q p d fa s)
        = Inl (Exn ''Exception'' ''Blockchain service not configured. Please set CONTRACT_ADDRESS and PRIVATE_KEY in .env'')
      \<and> fst (sign_contract self i ba s) = Inl (Exn ''Exception'' ''Blockchain service not configured'')
      \<and> fst (get_contract_details self j s) = Inl (Exn ''Exception'' ''Blockchain service not configured''))
   \<and> (truthy (fst (is_configured self s)) \<and> contract self = Some a \<longrightarrow>
        (\<forall>e. from_key (w3 self) (private_key self) = Inl e \<longrightarrow> fst (create_contract self c q p d fa s) = Inl (Exn ''Exception'' (''Error creating contract: '' @ str e)))
        \<and> (\<forall>account. from_key (w3 self) (private_key self) = Inr account \<longrightarrow>
           (\<forall>e. get_transaction_count (w3 self) (address account) None (fst s) = Inl e \<longrightarrow> fst (create_contract self c q p d fa s) = Inl (Exn ''Exception'' (''Error creating contract: '' @ str e)))
         \<and> (\<forall>n. get_transaction_count (w3 self) (address account) None (fst s) = Inr n \<longrightarrow>
             (\<forall>e. contract_functions (w3 self) (createContract c q p d) = Some e \<longrightarrow> fst (create_contract self c q p d fa s) = Inl (Exn ''Exception'' (''Error creating contract: '' @ str e)))
           \<and> (contract_functions (w3 self) (createContract c q p d) = None \<longrightarrow>
               (\<forall>e. gas_price (w3 self) (fst s) = Inl e \<longrightarrow> fst (create_contract self c q p d fa s) = Inl (Exn ''Exception'' (''Error creating contract: '' @ str e)))
             \<and> (\<forall>g. gas_price (w3 self) (fst s) = Inr g \<longrightarrow>
                 (\<forall>e. build_transaction (w3 self) a (createContract c q p d)
                      [(''from'', PyStr (address account)), (''nonce'', PyInt n),
                       (''gas'', PyInt 500000), (''gasPrice'', PyInt g)] (fst s) = Inl e \<longrightarrow> fst (create_contract self c q p d fa s) = Inl (Exn ''Exception'' (''Error creating contract: '' @ str e)))
               \<and> (\<forall>tx. build_transaction (w3 self) a (createContract c q p d)
                      [(''from'', PyStr (address account)), (''nonce'', PyInt n),
                       (''gas'', PyInt 500000), (''gasPrice'', PyInt g)] (fst s) = Inr tx \<longrightarrow>
                   (\<forall>e. sign_transaction (w3 self) tx (private_key self) = Inl e \<longrightarrow> fst (create_contract self c q p d fa s) = Inl (Exn ''Exception'' (''Error creating contract: '' @ str e)))
                 \<and> (\<forall>signed_txn. sign_transaction (w3 self) tx (private_key self) = Inr signed_txn \<longrightarrow>
                     (\<forall>e. fst (send_raw_transaction (w3 self) (rawTransaction signed_txn) (fst s)) = Inl e \<longrightarrow> fst (create_contract self c q p d fa s) = Inl (Exn ''Exception'' (''Error creating contract: '' @ str e)))
                   \<and> (\<forall>tx_hash. fst (send_raw_transaction (w3 self) (rawTransaction signed_txn) (fst s)) = Inr tx_hash \<longrightarrow>
                       (\<forall>e. fst (wait_for_transaction_receipt (w3 self) tx_hash (snd (send_raw_transaction (w3 self) (rawTransaction signed_txn) (fst s)))) = Inl e \<longrightarrow> fst (create_contract self c q p d fa s) = Inl (Exn ''Exception'' (''Error creating contract: '' @ str e)))
                     \<and> (\<forall>r. fst (wait_for_transaction_receipt (w3 self) tx_hash (snd (send_raw_transaction (w3 self) (rawTransaction signed_txn) (fst s)))) = Inr r \<longrightarrow>
                         (\<forall>e. process_receipt (w3 self) r = Inl e \<longrightarrow> fst (create_contract self c q p d fa s) = Inl (Exn ''Exception'' (''Error creating contract: '' @ str e)))
                         \<and> (\<forall>evs. process_receipt (w3 self) r = Inr evs \<longrightarrow> (\<exists>v. fst (create_contract self c q p d fa s) = Inr v)))))))))))
   \<and> (truthy (fst (is_configured self s)) \<and> contract self = Some a \<longrightarrow>
        (\<forall>e. from_key (w3 self) (private_key self) = Inl e \<longrightarrow> fst (sign_contract self i ba s) = Inl (Exn ''Exception'' (''Error signing contract: '' @ str e)))
        \<and> (\<forall>account. from_key (w3 self) (private_key self) = Inr account \<longrightarrow>
           (\<forall>e. get_transaction_count (w3 self) (address account) None (fst s) = Inl e \<longrightarrow> fst (sign_contract self i ba s) = Inl (Exn ''Exception'' (''Error signing contract: '' @ str e)))
         \<and> (\<forall>n. get_transaction_count (w3 self) (address account) None (fst s) = Inr n \<longrightarrow>
             (\<forall>e. contract_functions (w3 self) (signAsBuyer i) = Some e \<longrightarrow> fst (sign_contract self i ba s) = Inl (Exn ''Exception'' (''Error signing contract: '' @ str e)))
           \<and> (contract_functions (w3 self) (signAsBuyer i) = None \<longrightarrow>
               (\<forall>e. gas_price (w3 self) (fst s) = Inl e \<longrightarrow> fst (sign_contract self i ba s) = Inl (Exn ''Exception'' (''Error signing contract: '' @ str e)))
             \<and> (\<forall>g. gas_price (w3 self) (fst s) = Inr g \<longrightarrow>
                 (\<forall>e. build_transaction (w3 self) a (signAsBuyer i)
                      [(''from'', PyStr (address account)), (''nonce'', PyInt n),
                       (''gas'', PyInt 300000), (''gasPrice'', PyInt g)] (fst s) = Inl e \<longrightarrow> fst (sign_contract self i ba s) = Inl (Exn ''Exception'' (''Error signing contract: '' @ str e)))
               \<and> (\<forall>tx. build_transaction (w3 self) a (signAsBuyer i)
                      [(''from'', PyStr (address account)), (''nonce'', PyInt n),
                       (''gas'', PyInt 300000), (''gasPrice'', PyInt g)] (fst s) = Inr tx \<longrightarrow>
                   (\<forall>e. sign_transaction (w3 self) tx (private_key self) = Inl e \<longrightarrow> fst (sign_contract self i ba s) = Inl (Exn ''Exception'' (''Error signing contract: '' @ str e)))
                 \<and> (\<forall>signed_txn. sign_transaction (w3 self) tx (private_key self) = Inr signed_txn \<longrightarrow>
                     (\<forall>e. fst (send_raw_transaction (w3 self) (rawTransaction signed_txn) (fst s)) = Inl e \<longrightarrow> fst (sign_contract self i ba s) = Inl (Exn ''Exception'' (''Error signing contract: '' @ str e)))
                   \<and> (\<forall>tx_hash. fst (send_raw_transaction (w3 self) (rawTransaction signed_txn) (fst s)) = Inr tx_hash \<longrightarrow>
                       (\<forall>e. fst (wait_for_transaction_receipt (w3 self) tx_hash (snd (send_raw_transaction (w3 self) (rawTransaction signed_txn) (fst s)))) = Inl e \<longrightarrow> fst (sign_contract self i ba s) = Inl (Exn ''Exception'' (''Error signing contract: '' @ str e)))
                     \<and> (\<forall>r. fst (wait_for_transaction_receipt (w3 self) tx_hash (snd (send_raw_transaction (w3 self) (rawTransaction signed_txn) (fst s)))) = Inr r \<longrightarrow>
                         (\<exists>v. fst (sign_contract self i ba s) = Inr v))))))))))
   \<and> (truthy (fst (is_configured self s)) \<and> contract self = Some a \<longrightarrow>
        (\<forall>e. contract_functions (w3 self) (getContract j) = Some e \<longrightarrow> fst (get_contract_details self j s) = Inl (Exn ''Exception'' (''Error fetching contract details: '' @ str e)))
        \<and> (contract_functions (w3 self) (getContract j) = None \<longrightarrow>
           (\<forall>e. call_getContract (w3 self) a j (fst s) = Inl e \<longrightarrow> fst (get_contract_details self j s) = Inl (Exn ''Exception'' (''Error fetching contract details: '' @ str e)))
         \<and> (\<forall>t. call_getContract (w3 self) a j (fst s) = Inr t \<longrightarrow>
             (\<forall>e. strftime (w3 self) (t_deliveryDate t) ''%Y-%m-%d'' = Inl e \<longrightarrow> fst (get_contract_details self j s) = Inl (Exn ''Exception'' (''Error fetching contract details: '' @ str e)))
           \<and> (\<forall>dd. strftime (w3 self) (t_deliveryDate t) ''%Y-%m-%d'' = Inr dd \<longrightarrow>
               (\<forall>e. strftime (w3 self) (t_createdAt t) ''%Y-%m-%d %H:%M:%S'' = Inl e \<longrightarrow> fst (get_contract_details self j s) = Inl (Exn ''Exception'' (''Error fetching contract details: '' @ str e)))
             \<and> (\<forall>ca. strftime (w3 self) (t_createdAt t) ''%Y-%m-%d %H:%M:%S'' = Inr ca \<longrightarrow>
                 (\<exists>v. fst (get_contract_details self j s) = Inr v))))))
   \<and> (\<exists>l. snd (snd (create_contract self c q p d fa s)) = snd s @ l
         \<and> map rpc_name l = take (length l) (''is_connected'' # pipeline_names))
   \<and> (\<exists>l. snd (snd (sign_contract self i ba s)) = snd s @ l
         \<and> map rpc_name l = take (length l) (''is_connected'' # pipeline_names))
   \<and> (\<exists>l. snd (snd (get_contract_details self j s)) = snd s @ l
         \<and> map rpc_name l = take (length l) [''is_connected'', ''call''])"
proof -
  have closed: "(\<not> truthy (fst (is_configured self s)) \<longrightarrow>
      fst (create_contract self c q p d fa s)
        = Inl (Exn ''Exception'' ''Blockchain service not configured. Please set CONTRACT_ADDRESS and PRIVATE_KEY in .env'')
      \<and> fst (sign_contract self i ba s) = Inl (Exn ''Exception'' ''Blockchain service not configured'')
      \<and> fst (get_contract_details self j s) = Inl (Exn ''Exception'' ''Blockchain service not configured''))"
    using gate_falsy(1)[of self s]
    by (auto simp: create_contract_def sign_contract_def get_contract_details_def raise_def
          Exception_def split: prod.splits)
  have create: "(truthy (fst (is_configured self s)) \<and> contract self = Some a \<longrightarrow>
        (\<forall>e. from_key (w3 self) (private_key self) = Inl e \<longrightarrow> fst (create_contract self c q p d fa s) = Inl (Exn ''Exception'' (''Error creating contract: '' @ str e)))
        \<and> (\<forall>account. from_key (w3 self) (private_key self) = Inr account \<longrightarrow>
           (\<forall>e. get_transaction_count (w3 self) (address account) None (fst s) = Inl e \<longrightarrow> fst (create_contract self c q p d fa s) = Inl (Exn ''Exception'' (''Error creating contract: '' @ str e)))
         \<and> (\<forall>n. get_transaction_count (w3 self) (address account) None (fst s) = Inr n \<longrightarrow>
             (\<forall>e. contract_functions (w3 self) (createContract c q p d) = Some e \<longrightarrow> fst (create_contract self c q p d fa s) = Inl (Exn ''Exception'' (''Error creating contract: '' @ str e)))
           \<and> (contract_functions (w3 self) (createContract c q p d) = None \<longrightarrow>
               (\<forall>e. gas_price (w3 self) (fst s) = Inl e \<longrightarrow> fst (create_contract self c q p d fa s) = Inl (Exn ''Exception'' (''Error creating contract: '' @ str e)))
             \<and> (\<forall>g. gas_price (w3 self) (fst s) = Inr g \<longrightarrow>
                 (\<forall>e. build_transaction (w3 self) a (createContract c q p d)
                      [(''from'', PyStr (address account)), (''nonce'', PyInt n),
                       (''gas'', PyInt 500000), (''gasPrice'', PyInt g)] (fst s) = Inl e \<longrightarrow> fst (create_contract self c q p d fa s) = Inl (Exn ''Exception'' (''Error creating contract: '' @ str e)))
               \<and> (\<forall>tx. build_transaction (w3 self) a (createContract c q p d)
                      [(''from'', PyStr (address account)), (''nonce'', PyInt n),
                       (''gas'', PyInt 500000), (''gasPrice'', PyInt g)] (fst s) = Inr tx \<longrightarrow>
                   (\<forall>e. sign_transaction (w3 self) tx (private_key self) = Inl e \<longrightarrow> fst (create_contract self c q p d fa s) = Inl (Exn ''Exception'' (''Error creating contract: '' @ str e)))
                 \<and> (\<forall>signed_txn. sign_transaction (w3 self) tx (private_key self) = Inr signed_txn \<longrightarrow>
                     (\<forall>e. fst (send_raw_transaction (w3 self) (rawTransaction signed_txn) (fst s)) = Inl e \<longrightarrow> fst (create_contract self c q p d fa s) = Inl (Exn ''Exception'' (''Error creating contract: '' @ str e)))
                   \<and> (\<forall>tx_hash. fst (send_raw_transaction (w3 self) (rawTransaction signed_txn) (fst s)) = Inr tx_hash \<longrightarrow>
                       (\<forall>e. fst (wait_for_transaction_receipt (w3 self) tx_hash (snd (send_raw_transaction (w3 self) (rawTransaction signed_txn) (fst s)))) = Inl e \<longrightarrow> fst (create_contract self c q p d fa s) = Inl (Exn ''Exception'' (''Error creating contract: '' @ str e)))
                     \<and> (\<forall>r. fst (wait_for_transaction_receipt (w3 self) tx_hash (snd (send_raw_transaction (w3 self) (rawTransaction signed_txn) (fst s)))) = Inr r \<longrightarrow>
                         (\<forall>e. process_receipt (w3 self) r = Inl e \<longrightarrow> fst (create_contract self c q p d fa s) = Inl (Exn ''Exception'' (''Error creating contract: '' @ str e)))
                         \<and> (\<forall>evs. process_receipt (w3 self) r = Inr evs \<longrightarrow> (\<exists>v. fst (create_contract self c q p d fa s) = Inr v)))))))))))"
  proof (intro impI, elim conjE)
    assume g: "truthy (fst (is_configured self s))" and c: "contract self = Some a"
    note eq = gate_truthy(1)[OF g]
    show "(\<forall>e. from_key (w3 self) (private_key self) = Inl e \<longrightarrow> fst (create_contract self c q p d fa s) = Inl (Exn ''Exception'' (''Error creating contract: '' @ str e)))
        \<and> (\<forall>account. from_key (w3 self) (private_key self) = Inr account \<longrightarrow>
           (\<forall>e. get_transaction_count (w3 self) (address account) None (fst s) = Inl e \<longrightarrow> fst (create_contract self c q p d fa s) = Inl (Exn ''Exception'' (''Error creating contract: '' @ str e)))
         \<and> (\<forall>n. get_transaction_count (w3 self) (address account) None (fst s) = Inr n \<longrightarrow>
             (\<forall>e. contract_functions (w3 self) (createContract c q p d) = Some e \<longrightarrow> fst (create_contract self c q p d fa s) = Inl (Exn ''Exception'' (''Error creating contract: '' @ str e)))
           \<and> (contract_functions (w3 self) (createContract c q p d) = None \<longrightarrow>
               (\<forall>e. gas_price (w3 self) (fst s) = Inl e \<longrightarrow> fst (create_contract self c q p d fa s) = Inl (Exn ''Exception'' (''Error creating contract: '' @ str e)))
             \<and> (\<forall>g. gas_price (w3 self) (fst s) = Inr g \<longrightarrow>
                 (\<forall>e. build_transaction (w3 self) a (createContract c q p d)
                      [(''from'', PyStr (address account)), (''nonce'', PyInt n),
                       (''gas'', PyInt 500000), (''gasPrice'', PyInt g)] (fst s) = Inl e \<longrightarrow> fst (create_contract self c q p d fa s) = Inl (Exn ''Exception'' (''Error creating contract: '' @ str e)))
               \<and> (\<forall>tx. build_transaction (w3 self) a (createContract c q p d)
                      [(''from'', PyStr (address account)), (''nonce'', PyInt n),
                       (''gas'', PyInt 500000), (''gasPrice'', PyInt g)] (fst s) = Inr tx \<longrightarrow>
                   (\<forall>e. sign_transaction (w3 self) tx (private_key self) = Inl e \<longrightarrow> fst (create_contract self c q p d fa s) = Inl (Exn ''Exception'' (''Error creating contract: '' @ str e)))
                 \<and> (\<forall>signed_txn. sign_transaction (w3 self) tx (private_key self) = Inr signed_txn \<longrightarrow>
                     (\<forall>e. fst (send_raw_transaction (w3 self) (rawTransaction signed_txn) (fst s)) = Inl e \<longrightarrow> fst (create_contract self c q p d fa s) = Inl (Exn ''Exception'' (''Error creating contract: '' @ str e)))
                   \<and> (\<forall>tx_hash. fst (send_raw_transaction (w3 self) (rawTransaction signed_txn) (fst s)) = Inr tx_hash \<longrightarrow>
                       (\<forall>e. fst (wait_for_transaction_receipt (w3 self) tx_hash (snd (send_raw_transaction (w3 self) (rawTransaction signed_txn) (fst s)))) = Inl e \<longrightarrow> fst (create_contract self c q p d fa s) = Inl (Exn ''Exception'' (''Error creating contract: '' @ str e)))
                     \<and> (\<forall>r. fst (wait_for_transaction_receipt (w3 self) tx_hash (snd (send_raw_transaction (w3 self) (rawTransaction signed_txn) (fst s)))) = Inr r \<longrightarrow>
                         (\<forall>e. process_receipt (w3 self) r = Inl e \<longrightarrow> fst (create_contract self c q p d fa s) = Inl (Exn ''Exception'' (''Error creating contract: '' @ str e)))
                         \<and> (\<forall>evs. process_receipt (w3 self) r = Inr evs \<longrightarrow> (\<exists>v. fst (create_contract self c q p d fa s) = Inr v))))))))))"
      using c by (auto simp: eq create_contract_def send_transaction_def then_do_def query_def
          command_def local_def return_def raise_def entry_point_def try_except_def Let_def
          Exception_def)
  qed
  have sign: "(truthy (fst (is_configured self s)) \<and> contract self = Some a \<longrightarrow>
        (\<forall>e. from_key (w3 self) (private_key self) = Inl e \<longrightarrow> fst (sign_contract self i ba s) = Inl (Exn ''Exception'' (''Error signing contract: '' @ str e)))
        \<and> (\<forall>account. from_key (w3 self) (private_key self) = Inr account \<longrightarrow>
           (\<forall>e. get_transaction_count (w3 self) (address account) None (fst s) = Inl e \<longrightarrow> fst (sign_contract self i ba s) = Inl (Exn ''Exception'' (''Error signing contract: '' @ str e)))
         \<and> (\<forall>n. get_transaction_count (w3 self) (address account) None (fst s) = Inr n \<longrightarrow>
             (\<forall>e. contract_functions (w3 self) (signAsBuyer i) = Some e \<longrightarrow> fst (sign_contract self i ba s) = Inl (Exn ''Exception'' (''Error signing contract: '' @ str e)))
           \<and> (contract_functions (w3 self) (signAsBuyer i) = None \<longrightarrow>
               (\<forall>e. gas_price (w3 self) (fst s) = Inl e \<longrightarrow> fst (sign_contract self i ba s) = Inl (Exn ''Exception'' (''Error signing contract: '' @ str e)))
             \<and> (\<forall>g. gas_price (w3 self) (fst s) = Inr g \<longrightarrow>
                 (\<forall>e. build_transaction (w3 self) a (signAsBuyer i)
                      [(''from'', PyStr (address account)), (''nonce'', PyInt n),
                       (''gas'', PyInt 300000), (''gasPrice'', PyInt g)] (fst s) = Inl e \<longrightarrow> fst (sign_contract self i ba s) = Inl (Exn ''Exception'' (''Error signing contract: '' @ str e)))
               \<and> (\<forall>tx. build_transaction (w3 self) a (signAsBuyer i)
                      [(''from'', PyStr (address account)), (''nonce'', PyInt n),
                       (''gas'', PyInt 300000), (''gasPrice'', PyInt g)] (fst s) = Inr tx \<longrightarrow>
                   (\<forall>e. sign_transaction (w3 self) tx (private_key self) = Inl e \<longrightarrow> fst (sign_contract self i ba s) = Inl (Exn ''Exception'' (''Error signing contract: '' @ str e)))
                 \<and> (\<forall>signed_txn. sign_transaction (w3 self) tx (private_key self) = Inr signed_txn \<longrightarrow>
                     (\<forall>e. fst (send_raw_transaction (w3 self) (rawTransaction signed_txn) (fst s)) = Inl e \<longrightarrow> fst (sign_contract self i ba s) = Inl (Exn ''Exception'' (''Error signing contract: '' @ str e)))
                   \<and> (\<forall>tx_hash. fst (send_raw_transaction (w3 self) (rawTransaction signed_txn) (fst s)) = Inr tx_hash \<longrightarrow>
                       (\<forall>e. fst (wait_for_transaction_receipt (w3 self) tx_hash (snd (send_raw_transaction (w3 self) (rawTransaction signed_txn) (fst s)))) = Inl e \<longrightarrow> fst (sign_contract self i ba s) = Inl (Exn ''Exception'' (''Error signing contract: '' @ str e)))
                     \<and> (\<forall>r. fst (wait_for_transaction_receipt (w3 self) tx_hash (snd (send_raw_transaction (w3 self) (rawTransaction signed_txn) (fst s)))) = Inr r \<longrightarrow>
                         (\<exists>v. fst (sign_contract self i ba s) = Inr v))))))))))"
  proof (intro impI, elim conjE)
    assume g: "truthy (fst (is_configured self s))" and c: "contract self = Some a"
    note eq = gate_truthy(1)[OF g]
    show "(\<forall>e. from_key (w3 self) (private_key self) = Inl e \<longrightarrow> fst (sign_contract self i ba s) = Inl (Exn ''Exception'' (''Error signing contract: '' @ str e)))
        \<and> (\<forall>account. from_key (w3 self) (private_key self) = Inr account \<longrightarrow>
           (\<forall>e. get_transaction_count (w3 self) (address account) None (fst s) = Inl e \<longrightarrow> fst (sign_contract self i ba s) = Inl (Exn ''Exception'' (''Error signing contract: '' @ str e)))
         \<and> (\<forall>n. get_transaction_count (w3 self) (address account) None (fst s) = Inr n \<longrightarrow>
             (\<forall>e. contract_functions (w3 self) (signAsBuyer i) = Some e \<longrightarrow> fst (sign_contract self i ba s) = Inl (Exn ''Exception'' (''Error signing contract: '' @ str e)))
           \<and> (contract_functions (w3 self) (signAsBuyer i) = None \<longrightarrow>
               (\<forall>e. gas_price (w3 self) (fst s) = Inl e \<longrightarrow> fst (sign_contract self i ba s) = Inl (Exn ''Exception'' (''Error signing contract: '' @ str e)))
             \<and> (\<forall>g. gas_price (w3 self) (fst s) = Inr g \<longrightarrow>
                 (\<forall>e. build_transaction (w3 self) a (signAsBuyer i)
                      [(''from'', PyStr (address account)), (''nonce'', PyInt n),
                       (''gas'', PyInt 300000), (''gasPrice'', PyInt g)] (fst s) = Inl e \<longrightarrow> fst (sign_contract self i ba s) = Inl (Exn ''Exception'' (''Error signing contract: '' @ str e)))
               \<and> (\<forall>tx. build_transaction (w3 self) a (signAsBuyer i)
                      [(''from'', PyStr (address account)), (''nonce'', PyInt n),
                       (''gas'', PyInt 300000), (''gasPrice'', PyInt g)] (fst s) = Inr tx \<longrightarrow>
                   (\<forall>e. sign_transaction (w3 self) tx (private_key self) = Inl e \<longrightarrow> fst (sign_contract self i ba s) = Inl (Exn ''Exception'' (''Error signing contract: '' @ str e)))
                 \<and> (\<forall>signed_txn. sign_transaction (w3 self) tx (private_key self) = Inr signed_txn \<longrightarrow>
                     (\<forall>e. fst (send_raw_transaction (w3 self) (rawTransaction signed_txn) (fst s)) = Inl e \<longrightarrow> fst (sign_contract self i ba s) = Inl (Exn ''Exception'' (''Error signing contract: '' @ str e)))
                   \<and> (\<forall>tx_hash. fst (send_raw_transaction (w3 self) (rawTransaction signed_txn) (fst s)) = Inr tx_hash \<longrightarrow>
                       (\<forall>e. fst (wait_for_transaction_receipt (w3 self) tx_hash (snd (send_raw_transaction (w3 self) (rawTransaction signed_txn) (fst s)))) = Inl e \<longrightarrow> fst (sign_contract self i ba s) = Inl (Exn ''Exception'' (''Error signing contract: '' @ str e)))
                     \<and> (\<forall>r. fst (wait_for_transaction_receipt (w3 self) tx_hash (snd (send_raw_transaction (w3 self) (rawTransaction signed_txn) (fst s)))) = Inr r \<longrightarrow>
                         (\<exists>v. fst (sign_contract self i ba s) = Inr v)))))))))"
      using c by (auto simp: eq sign_contract_def send_transaction_def then_do_def query_def
          command_def local_def return_def raise_def entry_point_def try_except_def Let_def
          Exception_def)
  qed
  have get: "(truthy (fst (is_configured self s)) \<and> contract self = Some a \<longrightarrow>
        (\<forall>e. contract_functions (w3 self) (getContract j) = Some e \<longrightarrow> fst (get_contract_details self j s) = Inl (Exn ''Exception'' (''Error fetching contract details: '' @ str e)))
        \<and> (contract_functions (w3 self) (getContract j) = None \<longrightarrow>
           (\<forall>e. call_getContract (w3 self) a j (fst s) = Inl e \<longrightarrow> fst (get_contract_details self j s) = Inl (Exn ''Exception'' (''Error fetching contract details: '' @ str e)))
         \<and> (\<forall>t. call_getContract (w3 self) a j (fst s) = Inr t \<longrightarrow>
             (\<forall>e. strftime (w3 self) (t_deliveryDate t) ''%Y-%m-%d'' = Inl e \<longrightarrow> fst (get_contract_details self j s) = Inl (Exn ''Exception'' (''Error fetching contract details: '' @ str e)))
           \<and> (\<forall>dd. strftime (w3 self) (t_deliveryDate t) ''%Y-%m-%d'' = Inr dd \<longrightarrow>
               (\<forall>e. strftime (w3 self) (t_createdAt t) ''%Y-%m-%d %H:%M:%S'' = Inl e \<longrightarrow> fst (get_contract_details self j s) = Inl (Exn ''Exception'' (''Error fetching contract details: '' @ str e)))
             \<and> (\<forall>ca. strftime (w3 self) (t_createdAt t) ''%Y-%m-%d %H:%M:%S'' = Inr ca \<longrightarrow>
                 (\<exists>v. fst (get_contract_details self j s) = Inr v))))))"
  proof (intro impI, elim conjE)
    assume g: "truthy (fst (is_configured self s))" and c: "contract self = Some a"
    note eq = gate_truthy(1)[OF g]
    show "(\<forall>e. contract_functions (w3 self) (getContract j) = Some e \<longrightarrow> fst (get_contract_details self j s) = Inl (Exn ''Exception'' (''Error fetching contract details: '' @ str e)))
        \<and> (contract_functions (w3 self) (getContract j) = None \<longrightarrow>
           (\<forall>e. call_getContract (w3 self) a j (fst s) = Inl e \<longrightarrow> fst (get_contract_details self j s) = Inl (Exn ''Exception'' (''Error fetching contract details: '' @ str e)))
         \<and> (\<forall>t. call_getContract (w3 self) a j (fst s) = Inr t \<longrightarrow>
             (\<forall>e. strftime (w3 self) (t_deliveryDate t) ''%Y-%m-%d'' = Inl e \<longrightarrow> fst (get_contract_details self j s) = Inl (Exn ''Exception'' (''Error fetching contract details: '' @ str e)))
           \<and> (\<forall>dd. strftime (w3 self) (t_deliveryDate t) ''%Y-%m-%d'' = Inr dd \<longrightarrow>
               (\<forall>e. strftime (w3 self) (t_createdAt t) ''%Y-%m-%d %H:%M:%S'' = Inl e \<longrightarrow> fst (get_contract_details self j s) = Inl (Exn ''Exception'' (''Error fetching contract details: '' @ str e)))
             \<and> (\<forall>ca. strftime (w3 self) (t_createdAt t) ''%Y-%m-%d %H:%M:%S'' = Inr ca \<longrightarrow>
                 (\<exists>v. fst (get_contract_details self j s) = Inr v)))))"
      using c by (auto simp: eq get_contract_details_def then_do_def query_def
          local_def return_def raise_def entry_point_def try_except_def Exception_def)
  qed
  have logc: "(\<exists>l. snd (snd (create_contract self c q p d fa s)) = snd s @ l
         \<and> map rpc_name l = take (length l) (''is_connected'' # pipeline_names))"
    using create_contract_log[of self c q p d fa s] by blast
  have logs: "(\<exists>l. snd (snd (sign_contract self i ba s)) = snd s @ l
         \<and> map rpc_name l = take (length l) (''is_connected'' # pipeline_names))"
    using sign_contract_log[of self i ba s] by blast
  have logg: "(\<exists>l. snd (snd (get_contract_details self j s)) = snd s @ l
         \<and> map rpc_name l = take (length l) [''is_connected'', ''call''])"
    by (rule get_contract_details_log)
  from closed create sign get logc logs logg show ?thesis
    by (intro conjI)
qed

text \<open>
  On the fake ledger: a creation whose wait times out, a signing on the service with no
  key, a read that the ledger program reverts, and a read of a contract whose creation
  time stamp the calendar cannot format. Each surfaces the generic class with the
  prefix and the message of the step that raised.
\<close>

theorem C3_failures_surfaced_witness:
  "fst (create_contract fake_service ''Soybean'' 100 5000 1748736000 ''0xABC0''
          (node0\<lparr>confirms := False\<rparr>, []))
     = Inl (Exn ''Exception'' ''Error creating contract: Transaction is not in the chain after 120 seconds'')
   \<and> fst (sign_contract keyless_service 1 ''0xDEF0'' (node0, []))
     = Inl (Exn ''Exception'' ''Blockchain service not configured'')
   \<and> fst (get_contract_details reverting_service 7 (node0, []))
     = Inl (Exn ''Exception'' ''Error fetching contract details: execution reverted: Contract does not exist'')
   \<and> fst (get_contract_details fake_service 3
          (node0\<lparr>stored := [(3, soybean\<lparr>t_id := 3, t_createdAt := 2 ^ 256 - 1\<rparr>)]\<rparr>, []))
     = Inl (Exn ''Exception'' ''Error fetching contract details: timestamp out of range for platform time_t'')"
proof -
  let ?s1 = "(node0\<lparr>confirms := False\<rparr>, [] :: rpc list)"
  let ?s3 = "(node0\<lparr>stored := [(3, soybean\<lparr>t_id := 3, t_createdAt := 2 ^ 256 - 1\<rparr>)]\<rparr>, [] :: rpc list)"
  let ?ps = "[(''from'', PyStr ''0xACC0''), (''nonce'', PyInt 0), (''gas'', PyInt 500000), (''gasPrice'', PyInt 30)]"
  let ?tx = "\<lparr> tx_to = fake_address, tx_data = createContract ''Soybean'' 100 5000 1748736000, tx_params = ?ps \<rparr>"
  have g1: "truthy (fst (is_configured fake_service ?s1)) \<and> contract fake_service = Some fake_address"
    by (simp add: fake_defs service_defs)
  have k: "from_key (w3 fake_service) (private_key fake_service) = Inr \<lparr> address = ''0xACC0'' \<rparr>"
    by (simp add: fake_defs)
  have n: "get_transaction_count (w3 fake_service) (address \<lparr> address = ''0xACC0'' \<rparr>) None (fst ?s1) = Inr 0"
    by (simp add: fake_defs)
  have f: "contract_functions (w3 fake_service) (createContract ''Soybean'' 100 5000 1748736000) = None"
    by (simp add: fake_defs)
  have p: "gas_price (w3 fake_service) (fst ?s1) = Inr 30"
    by (simp add: fake_defs)
  have b: "build_transaction (w3 fake_service) fake_address (createContract ''Soybean'' 100 5000 1748736000)
      [(''from'', PyStr (address \<lparr> address = ''0xACC0'' \<rparr>)), (''nonce'', PyInt 0),
       (''gas'', PyInt 500000), (''gasPrice'', PyInt 30)] (fst ?s1) = Inr ?tx"
    by (simp add: fake_defs)
  have sg: "sign_transaction (w3 fake_service) ?tx (private_key fake_service) = Inr \<lparr> rawTransaction = ''tx'' \<rparr>"
    by (simp add: fake_defs)
  have sd: "fst (send_raw_transaction (w3 fake_service) (rawTransaction \<lparr> rawTransaction = ''tx'' \<rparr>) (fst ?s1))
      = Inr (HexBytes ''0xtx'')"
    by (simp add: fake_defs)
  have wt: "fst (wait_for_transaction_receipt (w3 fake_service) (HexBytes ''0xtx'')
        (snd (send_raw_transaction (w3 fake_service) (rawTransaction \<lparr> rawTransaction = ''tx'' \<rparr>) (fst ?s1))))
      = Inl (Exn ''TimeExhausted'' ''Transaction is not in the chain after 120 seconds'')"
    by (simp add: fake_defs)
  have r1: "fst (create_contract fake_service ''Soybean'' 100 5000 1748736000 ''0xABC0'' ?s1)
     = Inl (Exn ''Exception'' (''Error creating contract: ''
          @ str (Exn ''TimeExhausted'' ''Transaction is not in the chain after 120 seconds'')))"
    using C3_failures_surfaced[where self = fake_service and s = ?s1 and c = "''Soybean''" and q = 100
        and p = 5000 and d = 1748736000 and fa = "''0xABC0''" and a = fake_address,
        THEN conjunct2, THEN conjunct1, rule_format, OF g1, THEN conjunct2, rule_format, OF k,
        THEN conjunct2, rule_format, OF n, THEN conjunct2, rule_format, OF f, THEN conjunct2,
        rule_format, OF p, THEN conjunct2, rule_format, OF b, THEN conjunct2, rule_format, OF sg,
        THEN conjunct2, rule_format, OF sd, THEN conjunct1, rule_format, OF wt] .
  have g2: "\<not> truthy (fst (is_configured keyless_service (node0, [])))"
    by (simp add: fake_defs service_defs)
  have r2: "fst (sign_contract keyless_service 1 ''0xDEF0'' (node0, []))
     = Inl (Exn ''Exception'' ''Blockchain service not configured'')"
    using C3_failures_surfaced[where self = keyless_service and s = "(node0, [])" and i = 1
        and ba = "''0xDEF0''", THEN conjunct1, rule_format, OF g2] by simp
  have g3: "truthy (fst (is_configured reverting_service (node0, []))) \<and> contract reverting_service = Some fake_address"
    by (simp add: fake_defs service_defs)
  have f3: "contract_functions (w3 reverting_service) (getContract 7) = None"
    by (simp add: fake_defs)
  have c3: "call_getContract (w3 reverting_service) fake_address 7 (fst (node0, []))
      = Inl (Exn ''ContractLogicError'' ''execution reverted: Contract does not exist'')"
    by (simp add: fake_defs)
  have r3: "fst (get_contract_details reverting_service 7 (node0, []))
     = Inl (Exn ''Exception'' (''Error fetching contract details: ''
          @ str (Exn ''ContractLogicError'' ''execution reverted: Contract does not exist'')))"
    using C3_failures_surfaced[where self = reverting_service and s = "(node0, [])" and j = 7
        and a = fake_address, THEN conjunct2, THEN conjunct2, THEN conjunct2, THEN conjunct1,
        rule_format, OF g3, THEN conjunct2, rule_format, OF f3, THEN conjunct1, rule_format, OF c3] .
  let ?t = "soybean\<lparr>t_id := 3, t_createdAt := 2 ^ 256 - 1\<rparr>"
  have g4: "truthy (fst (is_configured fake_service ?s3)) \<and> contract fake_service = Some fake_address"
    by (simp add: fake_defs service_defs)
  have f4: "contract_functions (w3 fake_service) (getContract 3) = None"
    by (simp add: fake_defs)
  have c4: "call_getContract (w3 fake_service) fake_address 3 (fst ?s3) = Inr ?t"
    by (simp add: fake_defs)
  have d4: "strftime (w3 fake_service) (t_deliveryDate ?t) ''%Y-%m-%d'' = Inr ''2025-06-01''"
    by (simp add: fake_defs)
  have e4: "strftime (w3 fake_service) (t_createdAt ?t) ''%Y-%m-%d %H:%M:%S''
      = Inl (Exn ''OverflowError'' ''timestamp out of range for platform time_t'')"
    by (simp add: fake_defs)
  have r4: "fst (get_contract_details fake_service 3 ?s3)
     = Inl (Exn ''Exception'' (''Error fetching contract details: ''
          @ str (Exn ''OverflowError'' ''timestamp out of range for platform time_t'')))"
    using C3_failures_surfaced[where self = fake_service and s = ?s3 and j = 3
        and a = fake_address, THEN conjunct2, THEN conjunct2, THEN conjunct2, THEN conjunct1,
        rule_format, OF g4, THEN conjunct2, rule_format, OF f4, THEN conjunct2, rule_format, OF c4,
        THEN conjunct2, rule_format, OF d4, THEN conjunct1, rule_format, OF e4] .
  from r1 r2 r3 r4 show ?thesis by simp
qed

text \<open>
  C4. The claim holds of the truth value of the result and fails of the result itself.
  \<open>is_configured\<close> returns \<^verbatim>\<open>False\<close> when \<^verbatim>\<open>is_address\<close> rejects
  the address and when the node does not answer the probe, and \<^verbatim>\<open>True\<close> when all
  four conditions pass; when the private key or the contract address is empty it
  returns that empty string, which is not \<^verbatim>\<open>False\<close>, and the status report then
  carries the empty string as \<open>configured\<close>. Evaluated on the fake ledger: no key,
  no address, an address that is not one, a node that is down, the configured service.
\<close>

theorem C4_empty_key_returns_empty_string:
  "fst (is_configured keyless_service (node0, [])) = PyStr ''''
   \<and> fst (is_configured (init fake_web3 (map_of [(''PRIVATE_KEY'', ''0xkey'')])) (node0, [])) = PyStr ''''
   \<and> PyStr '''' \<noteq> PyBool False
   \<and> map_of (fst (blockchain_status keyless_service (node0, []))) ''configured'' = Some (PyStr '''')
   \<and> fst (is_configured
          (init fake_web3 (map_of [(''CONTRACT_ADDRESS'', ''not-an-address''), (''PRIVATE_KEY'', ''0xkey'')]))
          (node0, [])) = PyBool False
   \<and> fst (is_configured fake_service (node0\<lparr>up := False\<rparr>, [])) = PyBool False
   \<and> fst (is_configured fake_service (node0, [])) = PyBool True"
  by (simp add: fake_defs service_defs)



text \<open>
  C6. On a configured service, when the pipeline of \<open>create_contract\<close> returns
  transaction hash \<open>h\<close> and receipt \<open>r\<close>, and the ContractCreated events decoded from
  \<open>r\<close> are \<open>evs\<close>, the call succeeds with \<open>success\<close> true, the hash, the block
  number and the gas used of \<open>r\<close>; its \<open>contract_id\<close> is the contractId of the first
  event of \<open>evs\<close>, and \<^verbatim>\<open>None\<close> when \<open>evs\<close> is empty.
\<close>

theorem C6_contract_id_from_event:
  assumes "truthy (fst (is_configured self s))"
    and "send_transaction self (createContract c q p d) 500000 (snd (is_configured self s))
           = (Inr (h, r), s')"
    and "process_receipt (w3 self) r = Inr evs"
  shows "create_contract self c q p d fa s =
     (Inr [(''success'', PyBool True),
           (''transaction_hash'', PyStr (hex h)),
           (''contract_id'', (case evs of [] \<Rightarrow> PyNone | e # _ \<Rightarrow> PyInt (contractId e))),
           (''block_number'', PyInt (blockNumber r)),
           (''gas_used'', PyInt (gasUsed r))], s')"
proof -
  obtain v s1 where g: "is_configured self s = (v, s1)"
    by (cases "is_configured self s")
  with assms show ?thesis
    by (simp add: create_contract_def try_except_def then_do_def return_def local_def)
qed

text \<open>
  On the fake ledger: a receipt without logs gives \<^verbatim>\<open>None\<close> and success; a receipt
  whose logs are a ContractSigned event and two ContractCreated events, of ids 5 and 6,
  gives 5.
\<close>

theorem C6_contract_id_from_event_witness:
  "fst (create_contract fake_service ''Soybean'' 100 5000 1748736000 ''0xABC0''
          (node0\<lparr>emitted := []\<rparr>, []))
     = Inr [(''success'', PyBool True), (''transaction_hash'', PyStr ''0xtx''),
            (''contract_id'', PyNone), (''block_number'', PyInt 1), (''gas_used'', PyInt 21000)]
   \<and> fst (create_contract fake_service ''Soybean'' 100 5000 1748736000 ''0xABC0''
          (node0\<lparr>emitted := [ContractSignedLog 4 ''0xDEF0'' ''buyer'',
             ContractCreatedLog \<lparr> contractId = 5, ev_farmer = ''0xACC0'', ev_commodity = ''Soybean'',
               ev_quantity = 100, ev_pricePerUnit = 5000, ev_deliveryDate = 1748736000 \<rparr>,
             ContractCreatedLog \<lparr> contractId = 6, ev_farmer = ''0xACC0'', ev_commodity = ''Soybean'',
               ev_quantity = 100, ev_pricePerUnit = 5000, ev_deliveryDate = 1748736000 \<rparr>]\<rparr>, []))
     = Inr [(''success'', PyBool True), (''transaction_hash'', PyStr ''0xtx''),
            (''contract_id'', PyInt 5), (''block_number'', PyInt 1), (''gas_used'', PyInt 21000)]"
proof -
  let ?e5 = "\<lparr> contractId = 5, ev_farmer = ''0xACC0'', ev_commodity = ''Soybean'',
               ev_quantity = 100, ev_pricePerUnit = 5000, ev_deliveryDate = 1748736000 \<rparr>"
  let ?e6 = "\<lparr> contractId = 6, ev_farmer = ''0xACC0'', ev_commodity = ''Soybean'',
               ev_quantity = 100, ev_pricePerUnit = 5000, ev_deliveryDate = 1748736000 \<rparr>"
  let ?ls = "[ContractSignedLog 4 ''0xDEF0'' ''buyer'', ContractCreatedLog ?e5, ContractCreatedLog ?e6]"
  let ?n1 = "node0\<lparr>emitted := []\<rparr>"
  let ?n2 = "node0\<lparr>emitted := ?ls\<rparr>"
  let ?r1 = "\<lparr> blockNumber = 1, gasUsed = 21000, logs = [] \<rparr>"
  let ?r2 = "\<lparr> blockNumber = 1, gasUsed = 21000, logs = ?ls \<rparr>"
  have g1: "truthy (fst (is_configured fake_service (?n1, [])))"
    by (simp add: fake_defs service_defs)
  have g2: "truthy (fst (is_configured fake_service (?n2, [])))"
    by (simp add: fake_defs service_defs)
  have p1: "send_transaction fake_service (createContract ''Soybean'' 100 5000 1748736000) 500000
        (snd (is_configured fake_service (?n1, [])))
      = (Inr (HexBytes ''0xtx'', ?r1),
         snd (send_transaction fake_service (createContract ''Soybean'' 100 5000 1748736000) 500000
           (snd (is_configured fake_service (?n1, [])))))"
    by (simp add: fake_defs service_defs)
  have p2: "send_transaction fake_service (createContract ''Soybean'' 100 5000 1748736000) 500000
        (snd (is_configured fake_service (?n2, [])))
      = (Inr (HexBytes ''0xtx'', ?r2),
         snd (send_transaction fake_service (createContract ''Soybean'' 100 5000 1748736000) 500000
           (snd (is_configured fake_service (?n2, [])))))"
    by (simp add: fake_defs service_defs)
  have d1: "process_receipt (w3 fake_service) ?r1 = Inr []"
    by (simp add: fake_defs)
  have d2: "process_receipt (w3 fake_service) ?r2 = Inr [?e5, ?e6]"
    by (simp add: fake_defs)
  show ?thesis
    using C6_contract_id_from_event[OF g1 p1 d1, of "''0xABC0''"]
      C6_contract_id_from_event[OF g2 p2 d2, of "''0xABC0''"]
    by simp
qed

text \<open>
  C7. Whenever \<open>get_contract_details\<close> returns a view for the tuple \<open>t\<close> that the
  ledger returned, the view's \<open>total_value\<close> is the product of the tuple's quantity
  and price per unit as unbounded integers, and its \<open>quantity\<close> and
  \<open>price_per_unit\<close> are the tuple's: nothing is truncated, whatever the size.
\<close>

theorem C7_total_value_exact:
  assumes "truthy (fst (is_configured self s))" and "contract self = Some a"
    and "call_getContract (w3 self) a i (fst s) = Inr t"
    and "fst (get_contract_details self i s) = Inr v"
  shows "map_of v ''total_value'' = Some (PyInt (t_quantity t * t_pricePerUnit t))
       \<and> map_of v ''quantity'' = Some (PyInt (t_quantity t))
       \<and> map_of v ''price_per_unit'' = Some (PyInt (t_pricePerUnit t))"
  using assms gate_truthy(1)[OF assms(1)]
  by (auto simp: get_contract_details_def try_except_def then_do_def entry_point_def return_def
       query_def local_def raise_def split: option.splits sum.splits)

text \<open>
  On the fake ledger, contract 2 has quantity and price \<open>2 ^ 256 - 1\<close>, the largest
  value of the ledger's integer width: the total value is their exact square, which
  needs more than 510 bits. Contract 1 is the scenario's: 100 at 5000 gives 500000.
\<close>

theorem C7_total_value_exact_witness:
  "map_of (projr (fst (get_contract_details fake_service 2 (node0, [])))) ''total_value''
     = Some (PyInt ((2 ^ 256 - 1) * (2 ^ 256 - 1)))
   \<and> 2 ^ 510 < (2 ^ 256 - 1) * (2 ^ 256 - 1 :: int)
   \<and> map_of (projr (fst (get_contract_details fake_service 1 (node0, [])))) ''total_value''
     = Some (PyInt 500000)"
proof -
  let ?big = "soybean\<lparr> t_id := 2, t_quantity := 2 ^ 256 - 1, t_pricePerUnit := 2 ^ 256 - 1 \<rparr>"
  have g: "truthy (fst (is_configured fake_service (node0, [])))"
    by (simp add: fake_defs service_defs)
  have c: "contract fake_service = Some fake_address"
    by (simp add: fake_defs)
  have r2: "call_getContract (w3 fake_service) fake_address 2 (fst (node0, [])) = Inr ?big"
    by (simp add: fake_defs)
  have r1: "call_getContract (w3 fake_service) fake_address 1 (fst (node0, [])) = Inr soybean"
    by (simp add: fake_defs)
  have v2: "fst (get_contract_details fake_service 2 (node0, []))
      = Inr (projr (fst (get_contract_details fake_service 2 (node0, []))))"
    by (simp add: fake_defs service_defs)
  have v1: "fst (get_contract_details fake_service 1 (node0, []))
      = Inr (projr (fst (get_contract_details fake_service 1 (node0, []))))"
    by (simp add: fake_defs service_defs)
  have "map_of (projr (fst (get_contract_details fake_service 2 (node0, [])))) ''total_value''
     = Some (PyInt ((2 ^ 256 - 1) * (2 ^ 256 - 1)))"
    using C7_total_value_exact[OF g c r2 v2] by (simp add: soybean_def)
  moreover have "map_of (projr (fst (get_contract_details fake_service 1 (node0, [])))) ''total_value''
     = Some (PyInt 500000)"
    using C7_total_value_exact[OF g c r1 v1] by (simp add: soybean_def)
  moreover have "2 ^ 510 < (2 ^ 256 - 1) * (2 ^ 256 - 1 :: int)"
    by simp
  ultimately show ?thesis by simp
qed

text \<open>
  C8, as the claim states it, fails on a client whose default block is \<^verbatim>\<open>latest\<close>.
  On the fake ledger with a wait that times out, a first creation submits its
  transaction with nonce 0 and fails in the wait, leaving the transaction pending; a
  second creation, made next, asks the count again without a block identifier, is
  answered 0 again, builds and signs a second transaction with nonce 0, and the node
  refuses it.
\<close>

theorem C8_same_nonce_counterexample:
  "create_contract fake_service ''Groundnut'' 50 7000 1748736000 ''0xABC0''
     (snd (create_contract fake_service ''Soybean'' 100 5000 1748736000 ''0xABC0''
        (node0\<lparr>confirms := False\<rparr>, [])))
   = (Inl (Exn ''Exception'' ''Error creating contract: replacement transaction underpriced''),
      node0\<lparr>confirms := False, mempool := [''tx'']\<rparr>,
      [IsConnected, GetTransactionCount ''0xACC0'' None, GasPrice,
       BuildTransaction (createContract ''Soybean'' 100 5000 1748736000)
         [(''from'', PyStr ''0xACC0''), (''nonce'', PyInt 0), (''gas'', PyInt 500000),
          (''gasPrice'', PyInt 30)],
       SendRawTransaction ''tx'', WaitForTransactionReceipt (HexBytes ''0xtx''),
       IsConnected, GetTransactionCount ''0xACC0'' None, GasPrice,
       BuildTransaction (createContract ''Groundnut'' 50 7000 1748736000)
         [(''from'', PyStr ''0xACC0''), (''nonce'', PyInt 0), (''gas'', PyInt 500000),
          (''gasPrice'', PyInt 30)],
       SendRawTransaction ''tx''])"
  by (simp add: fake_defs service_defs)

text \<open>
  C8, amended. On a configured service, each mutating call asks the client once for the
  transaction count of the signing account, with no block identifier, and the nonce it
  puts into the transaction is the client's answer at that moment. Whether pending
  transactions are counted is the client's default block, not the service's choice.
\<close>

theorem C8_nonce_acquired:
  assumes "truthy (fst (is_configured self s))"
    and "from_key (w3 self) (private_key self) = Inr account"
    and "get_transaction_count (w3 self) (address account) None (fst s) = Inr n"
    and "contract_functions (w3 self) (createContract c q p d) = None"
    and "contract_functions (w3 self) (signAsBuyer i) = None"
    and "gas_price (w3 self) (fst s) = Inr g"
  shows "take 4 (drop (length (snd s)) (snd (snd (create_contract self c q p d fa s))))
           = [IsConnected, GetTransactionCount (address account) None, GasPrice,
              BuildTransaction (createContract c q p d)
                [(''from'', PyStr (address account)), (''nonce'', PyInt n),
                 (''gas'', PyInt 500000), (''gasPrice'', PyInt g)]]
       \<and> take 4 (drop (length (snd s)) (snd (snd (sign_contract self i ba s))))
           = [IsConnected, GetTransactionCount (address account) None, GasPrice,
              BuildTransaction (signAsBuyer i)
                [(''from'', PyStr (address account)), (''nonce'', PyInt n),
                 (''gas'', PyInt 300000), (''gasPrice'', PyInt g)]]"
proof -
  obtain a where a: "contract self = Some a"
    using gate_truthy(4)[OF assms(1)] by blast
  have pipeline: "\<exists>rest. snd (snd (send_transaction self f gas (fst s, snd s @ [IsConnected])))
       = snd s @ [IsConnected, GetTransactionCount (address account) None, GasPrice,
              BuildTransaction f
                [(''from'', PyStr (address account)), (''nonce'', PyInt n),
                 (''gas'', PyInt gas), (''gasPrice'', PyInt g)]] @ rest"
    if "contract_functions (w3 self) f = None" for f gas
    using that assms(2,3,6) a
    by (auto simp: send_transaction_def then_do_def query_def command_def local_def return_def
          entry_point_def Let_def split: sum.splits prod.splits)
  have "snd (snd (create_contract self c q p d fa s))
      = snd (snd (send_transaction self (createContract c q p d) 500000 (fst s, snd s @ [IsConnected])))"
    using gate_truthy(1)[OF assms(1)] assms(1)
    by (auto simp: create_contract_def try_except_state then_do_def local_def return_def
          split: prod.splits sum.splits)
  moreover have "snd (snd (sign_contract self i ba s))
      = snd (snd (send_transaction self (signAsBuyer i) 300000 (fst s, snd s @ [IsConnected])))"
    using gate_truthy(1)[OF assms(1)] assms(1)
    by (auto simp: sign_contract_def try_except_state then_do_def return_def
          split: prod.splits sum.splits)
  ultimately show ?thesis
    using pipeline[OF assms(4), of 500000] pipeline[OF assms(5), of 300000] by auto
qed

text \<open>
  On the fake ledger with one transaction of the account pending and none mined: the
  count with \<^verbatim>\<open>pending\<close> would be 1, the service asks without a block identifier
  and signs with nonce 0.
\<close>

theorem C8_nonce_acquired_witness:
  "get_transaction_count fake_web3 ''0xACC0'' (Some Pending) (node0\<lparr>mempool := [''tx'']\<rparr>) = Inr 1
   \<and> take 4 (drop (length ([] :: rpc list))
        (snd (snd (sign_contract fake_service 1 ''0xDEF0'' (node0\<lparr>mempool := [''tx'']\<rparr>, [])))))
       = [IsConnected, GetTransactionCount ''0xACC0'' None, GasPrice,
          BuildTransaction (signAsBuyer 1)
            [(''from'', PyStr ''0xACC0''), (''nonce'', PyInt 0), (''gas'', PyInt 300000),
             (''gasPrice'', PyInt 30)]]"
proof -
  let ?s = "(node0\<lparr>mempool := [''tx'']\<rparr>, [] :: rpc list)"
  have g: "truthy (fst (is_configured fake_service ?s))"
    by (simp add: fake_defs service_defs)
  have k: "from_key (w3 fake_service) (private_key fake_service) = Inr \<lparr> address = ''0xACC0'' \<rparr>"
    by (simp add: fake_defs)
  have n: "get_transaction_count (w3 fake_service) (address \<lparr> address = ''0xACC0'' \<rparr>) None (fst ?s) = Inr 0"
    by (simp add: fake_defs)
  have f1: "contract_functions (w3 fake_service) (createContract ''Soybean'' 100 5000 1748736000) = None"
    by (simp add: fake_defs)
  have f2: "contract_functions (w3 fake_service) (signAsBuyer 1) = None"
    by (simp add: fake_defs)
  have p: "gas_price (w3 fake_service) (fst ?s) = Inr 30"
    by (simp add: fake_defs)
  have "get_transaction_count fake_web3 ''0xACC0'' (Some Pending) (node0\<lparr>mempool := [''tx'']\<rparr>) = Inr 1"
    by (simp add: fake_defs)
  with C8_nonce_acquired[OF g k n f1 f2 p, of "''0xABC0''" "''0xDEF0''"] show ?thesis
    by simp
qed

text \<open>
  C9. The address argument of \<open>create_contract\<close> and of \<open>sign_contract\<close> has no
  effect: two calls that differ only in it return the same result, leave the same node
  and make the same calls with the same arguments (so the same built, signed and
  submitted transaction). Every transaction a creation builds is for the entry point
  \<^verbatim>\<open>createContract(commodity, quantity, pricePerUnit, deliveryDate)\<close>, every one a
  signing builds for \<^verbatim>\<open>signAsBuyer(contractId)\<close>.
\<close>

theorem C9_address_unused:
  "create_contract self c q p d farmer_address s = create_contract self c q p d farmer_address' s
   \<and> sign_contract self i buyer_address s = sign_contract self i buyer_address' s
   \<and> (\<exists>l. snd (snd (create_contract self c q p d farmer_address s)) = snd s @ l
         \<and> (\<forall>f ps. BuildTransaction f ps \<in> set l \<longrightarrow> f = createContract c q p d))
   \<and> (\<exists>l. snd (snd (sign_contract self i buyer_address s)) = snd s @ l
         \<and> (\<forall>f ps. BuildTransaction f ps \<in> set l \<longrightarrow> f = signAsBuyer i))"
proof (intro conjI)
  show "create_contract self c q p d farmer_address s = create_contract self c q p d farmer_address' s"
    by (simp add: create_contract_def)
  show "sign_contract self i buyer_address s = sign_contract self i buyer_address' s"
    by (simp add: sign_contract_def)
  show "\<exists>l. snd (snd (create_contract self c q p d farmer_address s)) = snd s @ l
         \<and> (\<forall>f ps. BuildTransaction f ps \<in> set l \<longrightarrow> f = createContract c q p d)"
    using create_contract_log[of self c q p d farmer_address s] by blast
  show "\<exists>l. snd (snd (sign_contract self i buyer_address s)) = snd s @ l
         \<and> (\<forall>f ps. BuildTransaction f ps \<in> set l \<longrightarrow> f = signAsBuyer i)"
    using sign_contract_log[of self i buyer_address s] by blast
qed

text \<open>
  On the fake ledger: the scenario's creation with two different farmer addresses, and
  the transaction it builds.
\<close>

theorem C9_address_unused_witness:
  "create_contract fake_service ''Soybean'' 100 5000 1748736000 ''0xABC0'' (node0, [])
     = create_contract fake_service ''Soybean'' 100 5000 1748736000 ''0xDEF0'' (node0, [])
   \<and> BuildTransaction (createContract ''Soybean'' 100 5000 1748736000)
         [(''from'', PyStr ''0xACC0''), (''nonce'', PyInt 0), (''gas'', PyInt 500000),
          (''gasPrice'', PyInt 30)]
       \<in> set (snd (snd (create_contract fake_service ''Soybean'' 100 5000 1748736000 ''0xDEF0'' (node0, []))))"
proof -
  have "BuildTransaction (createContract ''Soybean'' 100 5000 1748736000)
         [(''from'', PyStr ''0xACC0''), (''nonce'', PyInt 0), (''gas'', PyInt 500000),
          (''gasPrice'', PyInt 30)]
       \<in> set (snd (snd (create_contract fake_service ''Soybean'' 100 5000 1748736000 ''0xDEF0'' (node0, []))))"
    by (simp add: fake_defs service_defs)
  with C9_address_unused[where self = fake_service and c = "''Soybean''" and q = 100 and p = 5000
      and d = 1748736000 and farmer_address = "''0xABC0''" and farmer_address' = "''0xDEF0''"
      and s = "(node0, [])"]
  show ?thesis by blast
qed

text \<open>
  C10. \<open>get_total_contracts\<close> never raises. It returns 0 when the service is not
  configured, 0 when the ABI check or the read raises, and so the same 0 that a
  successful read of an empty ledger gives.
\<close>

theorem C10_total_never_raises:
  "(\<exists>n. fst (get_total_contracts self s) = Inr n)
   \<and> (\<not> truthy (fst (is_configured self s)) \<longrightarrow> fst (get_total_contracts self s) = Inr 0)
   \<and> (truthy (fst (is_configured self s)) \<and> contract_functions (w3 self) getTotalContracts \<noteq> None
        \<longrightarrow> fst (get_total_contracts self s) = Inr 0)
   \<and> (\<forall>a e. truthy (fst (is_configured self s)) \<and> contract self = Some a
        \<and> call_getTotalContracts (w3 self) a (fst s) = Inl e
        \<longrightarrow> fst (get_total_contracts self s) = Inr 0)
   \<and> (\<forall>a. truthy (fst (is_configured self s)) \<and> contract self = Some a
        \<and> contract_functions (w3 self) getTotalContracts = None
        \<and> call_getTotalContracts (w3 self) a (fst s) = Inr 0
        \<longrightarrow> fst (get_total_contracts self s) = Inr 0)"
  by (auto simp: get_total_contracts_def return_def raise_def then_do_def entry_point_def query_def
       is_configured_def split: prod.splits sum.splits option.splits if_splits)

text \<open>
  On the fake ledger: no private key, a ledger program that reverts the read, and a
  ledger that stores nothing all give 0.
\<close>

theorem C10_total_never_raises_witness:
  "fst (get_total_contracts keyless_service (node0, [])) = Inr 0
   \<and> fst (get_total_contracts reverting_service (node0, [])) = Inr 0
   \<and> fst (get_total_contracts fake_service (node0\<lparr>stored := []\<rparr>, [])) = Inr 0
   \<and> fst (get_total_contracts fake_service (node0, [])) = Inr 2"
proof -
  have g1: "\<not> truthy (fst (is_configured keyless_service (node0, [])))"
    by (simp add: fake_defs service_defs)
  have g2: "truthy (fst (is_configured reverting_service (node0, [])))
      \<and> contract reverting_service = Some fake_address
      \<and> call_getTotalContracts (w3 reverting_service) fake_address (fst (node0, []))
          = Inl (Exn ''ContractLogicError'' ''execution reverted'')"
    by (simp add: fake_defs service_defs)
  have g3: "truthy (fst (is_configured fake_service (node0\<lparr>stored := []\<rparr>, [])))
      \<and> contract fake_service = Some fake_address
      \<and> contract_functions (w3 fake_service) getTotalContracts = None
      \<and> call_getTotalContracts (w3 fake_service) fake_address (fst (node0\<lparr>stored := []\<rparr>, [])) = Inr 0"
    by (simp add: fake_defs service_defs)
  have "fst (get_total_contracts keyless_service (node0, [])) = Inr 0"
    using C10_total_never_raises[of keyless_service "(node0, [])"] g1 by blast
  moreover have "fst (get_total_contracts reverting_service (node0, [])) = Inr 0"
    using C10_total_never_raises[of reverting_service "(node0, [])"] g2 by blast
  moreover have "fst (get_total_contracts fake_service (node0\<lparr>stored := []\<rparr>, [])) = Inr 0"
    using C10_total_never_raises[of fake_service "(node0\<lparr>stored := []\<rparr>, [])"] g3 by blast
  moreover have "fst (get_total_contracts fake_service (node0, [])) = Inr 2"
    by (simp add: fake_defs service_defs)
  ultimately show ?thesis by simp
qed

end
